theory Spec2Isabelle
  imports Complex_Main "HOL-Library.Multiset"
begin

section \<open>Data model (types/index.ts and the migrations)\<close>

text \<open>
  The TypeScript interfaces become records with the source's field names; a field that
  occurs in several interfaces is written qualified (\<open>MovieRow.id\<close>, \<open>Movie.id\<close>).
  A \<open>number\<close> that holds an identifier, a year, a runtime or a count is an \<open>int\<close>;
  \<open>vote_average\<close> and the weights are \<open>real\<close> (the doubles of the source, idealised).
  A field of type \<open>T | null\<close> and an optional field \<open>f?: T\<close> are \<open>T option\<close>.
\<close>

record MovieRow =
  id :: int
  tmdb_id :: int
  title :: string
  original_title :: string
  year :: int
  runtime :: "int option"
  synopsis :: "string option"
  poster_path :: "string option"
  vote_average :: real
  vote_count :: int
  original_language :: string
  adult :: bool
  created_at :: nat

record Movie =
  id :: int
  title :: string
  year :: int
  runtime :: int
  synopsis :: string
  posterUrl :: string
  voteAverage :: real
  genres :: "string list"

record Genre =
  id :: int
  name :: string

datatype Era = Era_1980_1989 | Era_1990_1999 | Era_2000_2009 | Era_2010_2019 | Era_2020_now

record PickFilters =
  genreIds :: "int list option"
  era :: "Era option"
  origin :: "string list option"
  minDuration :: "int option"
  maxDuration :: "int option"

record WeightedCandidate =
  movie :: MovieRow
  weight :: real
  genres :: "string list"

record PickRequest =
  sessionId :: string
  filters :: PickFilters

record PickResponse =
  movie :: "Movie option"
  message :: "string option"

record CandidatesRequest =
  filters :: PickFilters
  limit :: "int option"
  sessionId :: "string option"
  excludeMovieIds :: "int list option"

record CandidatesResponse =
  movies :: "Movie list"

record SearchResponse =
  movie :: "Movie option"

text \<open>
  The tables of the migrations that the engine reads and writes. A table is the list of
  its rows in the order a sequential scan yields them. \<open>user_picks.id\<close> is a SERIAL
  column, drawn from the sequence \<open>user_picks_id_seq\<close>; \<open>clock\<close> is what \<open>NOW()\<close>
  returns. \<open>reachable\<close> says whether the pool reaches the server; when it does not,
  every query rejects with \<open>StoreUnavailable\<close>. A query whose parameter does not fit the
  type of the column it is compared with rejects with \<open>NumericValueOutOfRange\<close>.
  \<open>user_picks.session_id\<close> is of type UUID; the model keeps the text the caller sent and
  does not decide whether it is the text of a UUID, so what is proved of the queries on
  \<open>user_picks\<close> is proved of the calls in which they return.
\<close>

record MovieGenre =
  movie_id :: int
  genre_id :: int

record UserPick =
  id :: nat
  session_id :: string
  movie_id :: int
  filters :: PickFilters
  created_at :: nat

record database =
  movies :: "MovieRow list"
  genres :: "Genre list"
  movie_genres :: "MovieGenre list"
  user_picks :: "UserPick list"
  user_picks_id_seq :: nat
  clock :: nat
  reachable :: bool

datatype store_error = StoreUnavailable | NumericValueOutOfRange

datatype 'a reply = Reply200 'a | Reply400 string | Reply500 string

section \<open>Configuration (config.ts)\<close>

definition minVoteCount :: int where
  "minVoteCount = 500"

definition minVoteAverage :: real where
  "minVoteAverage = 55 / 10"

definition minRuntime :: int where
  "minRuntime = 60"

definition recentPicksLimit :: nat where
  "recentPicksLimit = 20"

definition firstPickTopPercentile :: real where
  "firstPickTopPercentile = 3 / 10"

definition tmdbImageBaseUrl :: string where
  "tmdbImageBaseUrl = ''https://image.tmdb.org/t/p/w500''"

section \<open>The picker (services/picker.ts): weight, sampler, response conversion\<close>

text \<open>\<open>calculateWeight\<close>: \<open>(vote_average / 10) * Math.log10(vote_count + 1)\<close>.\<close>

definition calculateWeight :: "MovieRow \<Rightarrow> real" where
  "calculateWeight m =
     (let ratingScore = vote_average m / 10;
          popularityScore = log 10 (real_of_int (vote_count m + 1))
      in ratingScore * popularityScore)"

text \<open>
  The \<open>for\<close> loop of \<open>weightedRandomSelect\<close>: subtract each weight from the running
  value and return the first candidate at which it is no longer positive. \<open>None\<close> means
  the loop ran off the end of the array.
\<close>

fun selectLoop :: "real \<Rightarrow> WeightedCandidate list \<Rightarrow> WeightedCandidate option" where
  "selectLoop random [] = None"
| "selectLoop random (candidate # rest) =
     (let random' = random - weight candidate
      in if random' \<le> 0 then Some candidate else selectLoop random' rest)"

text \<open>
  \<open>weightedRandomSelect\<close>; the argument \<open>u\<close> is the value \<open>Math.random()\<close> returns
  (a number in \<open>[0, 1)\<close>). \<open>None\<close> is the source's \<open>null\<close>.
\<close>

definition weightedRandomSelect :: "real \<Rightarrow> WeightedCandidate list \<Rightarrow> WeightedCandidate option" where
  "weightedRandomSelect u candidates =
     (if candidates = [] then None
      else
        let totalWeight = foldl (\<lambda>sum c. sum + weight c) 0 candidates;
            random = u * totalWeight
        in (case selectLoop random candidates of
              Some candidate \<Rightarrow> Some candidate
            | None \<Rightarrow> Some (last candidates)))"

text \<open>
  \<open>toMovie\<close>, the same text in picker.ts, routes/candidates.ts and routes/search.ts.
  \<open>x || d\<close> yields \<open>d\<close> when \<open>x\<close> is null, \<open>0\<close> or the empty string; the conditional
  on \<open>row.poster_path\<close> takes its else branch for null and for the empty string.
\<close>

definition toMovie :: "MovieRow \<Rightarrow> string list \<Rightarrow> Movie" where
  "toMovie row gs =
     \<lparr> Movie.id = MovieRow.id row,
       Movie.title = MovieRow.title row,
       Movie.year = MovieRow.year row,
       Movie.runtime = (case MovieRow.runtime row of None \<Rightarrow> 0 | Some r \<Rightarrow> if r = 0 then 0 else r),
       Movie.synopsis = (case MovieRow.synopsis row of None \<Rightarrow> [] | Some s \<Rightarrow> if s = [] then [] else s),
       posterUrl = (case poster_path row of
                      None \<Rightarrow> []
                    | Some p \<Rightarrow> if p = [] then [] else tmdbImageBaseUrl @ p),
       voteAverage = vote_average row,
       Movie.genres = gs \<rparr>"

section \<open>Queries (db/queries.ts)\<close>

fun eraToYearRange :: "Era \<Rightarrow> int \<times> int option" where
  "eraToYearRange Era_1980_1989 = (1980, Some 1989)"
| "eraToYearRange Era_1990_1999 = (1990, Some 1999)"
| "eraToYearRange Era_2000_2009 = (2000, Some 2009)"
| "eraToYearRange Era_2010_2019 = (2010, Some 2019)"
| "eraToYearRange Era_2020_now = (2020, None)"

text \<open>
  The clauses \<open>getCandidateMovies\<close> pushes onto \<open>conditions\<close>, each with the parameter
  its placeholder is bound to.
\<close>

datatype condition =
    AdultIsFalse
  | RuntimeIsNotNull
  | RuntimeGe int
  | RuntimeLe int
  | VoteCountGe int
  | VoteAverageGe real
  | YearBetween int int
  | YearGe int
  | OriginalLanguageAny "string list"
  | IdNotAll "int list"
  | GenreIdAny "int list"

text \<open>
  When a clause evaluates to TRUE on a row of \<open>movies m\<close>, joined with a row of
  \<open>movie_genres mg\<close> if the query has the join. A comparison with a NULL runtime is not
  TRUE. The WHERE clause is the conjunction of the clauses, so a row is kept exactly
  when every clause is TRUE.
\<close>

fun holds :: "condition \<Rightarrow> MovieRow \<Rightarrow> MovieGenre option \<Rightarrow> bool" where
  "holds AdultIsFalse m mg = (adult m = False)"
| "holds RuntimeIsNotNull m mg = (MovieRow.runtime m \<noteq> None)"
| "holds (RuntimeGe n) m mg = (case MovieRow.runtime m of None \<Rightarrow> False | Some r \<Rightarrow> n \<le> r)"
| "holds (RuntimeLe n) m mg = (case MovieRow.runtime m of None \<Rightarrow> False | Some r \<Rightarrow> r \<le> n)"
| "holds (VoteCountGe n) m mg = (n \<le> vote_count m)"
| "holds (VoteAverageGe x) m mg = (x \<le> vote_average m)"
| "holds (YearBetween a b) m mg = (a \<le> MovieRow.year m \<and> MovieRow.year m \<le> b)"
| "holds (YearGe a) m mg = (a \<le> MovieRow.year m)"
| "holds (OriginalLanguageAny ls) m mg = (original_language m \<in> set ls)"
| "holds (IdNotAll ids) m mg = (MovieRow.id m \<notin> set ids)"
| "holds (GenreIdAny gs) m mg = (case mg of None \<Rightarrow> False | Some g \<Rightarrow> genre_id g \<in> set gs)"

text \<open>\<open>String.prototype.toLowerCase\<close> on the ASCII letters (language codes are ASCII).\<close>

definition toLowerCase :: "string \<Rightarrow> string" where
  "toLowerCase s =
     map (\<lambda>c. let n = (of_char c :: nat) in if 65 \<le> n \<and> n \<le> 90 then char_of (n + 32) else c) s"

text \<open>
  The first half of \<open>getCandidateMovies\<close>: the list \<open>conditions\<close> and whether
  \<open>genreJoin\<close> is the INNER JOIN. A filter field is used when it is truthy: present,
  and not \<open>0\<close> for a number.
\<close>

definition candidateConditions :: "PickFilters \<Rightarrow> int list \<Rightarrow> condition list \<times> bool" where
  "candidateConditions fs excludeIds =
     (let floors = [AdultIsFalse, RuntimeIsNotNull, RuntimeGe minRuntime,
                    VoteCountGe minVoteCount, VoteAverageGe minVoteAverage];
          eraClause = (case era fs of
                         None \<Rightarrow> []
                       | Some e \<Rightarrow> (case eraToYearRange e of
                                     (start, Some end) \<Rightarrow> [YearBetween start end]
                                   | (start, None) \<Rightarrow> [YearGe start]));
          minClause = (case minDuration fs of
                         None \<Rightarrow> []
                       | Some d \<Rightarrow> if d \<noteq> 0 then [RuntimeGe d] else []);
          maxClause = (case maxDuration fs of
                         None \<Rightarrow> []
                       | Some d \<Rightarrow> if d \<noteq> 0 then [RuntimeLe d] else []);
          originClause = (case origin fs of
                            None \<Rightarrow> []
                          | Some os \<Rightarrow> if length os > 0
                                      then [OriginalLanguageAny (map toLowerCase os)] else []);
          excludeClause = (if length excludeIds > 0 then [IdNotAll excludeIds] else []);
          genreJoin = (case genreIds fs of None \<Rightarrow> False | Some gs \<Rightarrow> length gs > 0);
          genreClause = (case genreIds fs of
                           None \<Rightarrow> []
                         | Some gs \<Rightarrow> if length gs > 0 then [GenreIdAny gs] else [])
      in (floors @ eraClause @ minClause @ maxClause @ originClause @ excludeClause @ genreClause,
          genreJoin))"

text \<open>The FROM clause: \<open>movies m\<close>, with \<open>INNER JOIN movie_genres mg ON m.id = mg.movie_id\<close>
  when \<open>genreJoin\<close> is set.\<close>

definition fromMovies :: "database \<Rightarrow> bool \<Rightarrow> (MovieRow \<times> MovieGenre option) list" where
  "fromMovies db genreJoin =
     (if genreJoin
      then concat (map (\<lambda>m. map (\<lambda>mg. (m, Some mg))
                              (filter (\<lambda>mg. MovieGenre.movie_id mg = MovieRow.id m) (movie_genres db)))
                       (database.movies db))
      else map (\<lambda>m. (m, None)) (database.movies db))"

text \<open>
  \<open>SELECT DISTINCT m.* FROM ... WHERE ...\<close>: the distinct rows of \<open>movies\<close> that satisfy
  every clause, before the LIMIT.
\<close>

definition matchingRows :: "database \<Rightarrow> condition list \<Rightarrow> bool \<Rightarrow> MovieRow list" where
  "matchingRows db conditions genreJoin =
     remdups (map fst
       (filter (\<lambda>(m, mg). list_all (\<lambda>c. holds c m mg) conditions) (fromMovies db genreJoin)))"

text \<open>
  The whole query, with \<open>LIMIT 1000\<close>. The query has no ORDER BY: which thousand rows
  a larger selection is cut to is the planner's choice, here the first thousand in scan
  order.
\<close>

definition selectCandidates :: "database \<Rightarrow> condition list \<Rightarrow> bool \<Rightarrow> MovieRow list" where
  "selectCandidates db conditions genreJoin = take 1000 (matchingRows db conditions genreJoin)"

text \<open>
  The placeholders are sent untyped and take the type of the column they are compared
  with: \<open>runtime\<close> and \<open>year\<close> are SMALLINT, \<open>movies.id\<close> and \<open>movie_genres.genre_id\<close>
  are INTEGER, \<open>original_language\<close> is a character type. The server rejects the query
  when a number bound to a placeholder is outside the range of that type.
\<close>

definition inSmallint :: "int \<Rightarrow> bool" where
  "inSmallint n = (- 32768 \<le> n \<and> n \<le> 32767)"

definition inInteger :: "int \<Rightarrow> bool" where
  "inInteger n = (- 2147483648 \<le> n \<and> n \<le> 2147483647)"

fun paramsInRange :: "condition \<Rightarrow> bool" where
  "paramsInRange (RuntimeGe n) = inSmallint n"
| "paramsInRange (RuntimeLe n) = inSmallint n"
| "paramsInRange (YearBetween a b) = (inSmallint a \<and> inSmallint b)"
| "paramsInRange (YearGe a) = inSmallint a"
| "paramsInRange (IdNotAll ids) = list_all inInteger ids"
| "paramsInRange (GenreIdAny gs) = list_all inInteger gs"
| "paramsInRange c = True"

text \<open>
  \<open>getCandidateMovies\<close>: build the clauses, send the query. The call rejects when the
  store is out of reach or a parameter is out of range, and returns the rows otherwise.
\<close>

definition getCandidateMovies :: "database \<Rightarrow> PickFilters \<Rightarrow> int list \<Rightarrow> store_error + MovieRow list" where
  "getCandidateMovies db fs excludeIds =
     (if \<not> reachable db then Inl StoreUnavailable
      else (case candidateConditions fs excludeIds of
              (conditions, genreJoin) \<Rightarrow>
                if \<not> list_all paramsInRange conditions then Inl NumericValueOutOfRange
                else Inr (selectCandidates db conditions genreJoin)))"

text \<open>\<open>getMovieGenres\<close>: the genre names of one movie.\<close>

definition getMovieGenres :: "database \<Rightarrow> int \<Rightarrow> store_error + string list" where
  "getMovieGenres db movieId =
     (if \<not> reachable db then Inl StoreUnavailable
      else Inr (concat (map (\<lambda>g. map (\<lambda>mg. name g)
                  (filter (\<lambda>mg. Genre.id g = genre_id mg \<and> MovieGenre.movie_id mg = movieId)
                     (movie_genres db)))
                (database.genres db))))"

text \<open>
  \<open>getMoviesGenres\<close>: the rows (movie_id, name) of the join, folded into a
  \<open>Map<number, string[]>\<close> by the source's loop. Its callers pass ids read from
  \<open>movies.id\<close>, which are in the range of the column.
\<close>

definition getMoviesGenres :: "database \<Rightarrow> int list \<Rightarrow> store_error + (int \<rightharpoonup> string list)" where
  "getMoviesGenres db movieIds =
     (if movieIds = [] then Inr Map.empty
      else if \<not> reachable db then Inl StoreUnavailable
      else
        let rows = concat (map (\<lambda>g. map (\<lambda>mg. (MovieGenre.movie_id mg, name g))
                      (filter (\<lambda>mg. Genre.id g = genre_id mg \<and> MovieGenre.movie_id mg \<in> set movieIds)
                         (movie_genres db)))
                    (database.genres db))
        in Inr (foldl (\<lambda>genreMap (mid, nm).
                   genreMap(mid \<mapsto> (case genreMap mid of None \<Rightarrow> [] | Some gs \<Rightarrow> gs) @ [nm]))
                 Map.empty rows))"

text \<open>
  \<open>getRecentPickMovieIds\<close>: \<open>ORDER BY created_at DESC LIMIT recentPicksLimit\<close>. Rows
  with the same timestamp come latest insertion first.
\<close>

definition getRecentPickMovieIds :: "database \<Rightarrow> string \<Rightarrow> store_error + int list" where
  "getRecentPickMovieIds db sid =
     (if \<not> reachable db then Inl StoreUnavailable
      else Inr (map UserPick.movie_id
                 (take recentPicksLimit
                   (rev (sort_key UserPick.created_at
                     (filter (\<lambda>p. session_id p = sid) (user_picks db)))))))"

definition isFirstPickForSession :: "database \<Rightarrow> string \<Rightarrow> store_error + bool" where
  "isFirstPickForSession db sid =
     (if \<not> reachable db then Inl StoreUnavailable
      else Inr (length (filter (\<lambda>p. session_id p = sid) (user_picks db)) = 0))"

text \<open>\<open>recordPick\<close>: one INSERT into \<open>user_picks\<close>.\<close>

definition recordPick :: "database \<Rightarrow> string \<Rightarrow> int \<Rightarrow> PickFilters \<Rightarrow> store_error + database" where
  "recordPick db sid movieId fs =
     (if \<not> reachable db then Inl StoreUnavailable
      else Inr (db\<lparr> user_picks := user_picks db @
                       [\<lparr> UserPick.id = Suc (user_picks_id_seq db), session_id = sid,
                          UserPick.movie_id = movieId, UserPick.filters = fs,
                          UserPick.created_at = clock db \<rparr>],
                     user_picks_id_seq := Suc (user_picks_id_seq db) \<rparr>))"

section \<open>The pick orchestrator (services/picker.ts)\<close>

text \<open>
  Step 5 of \<open>pickMovie\<close>: for a first pick with more than ten candidates, a stable sort
  by weight, descending, and \<open>slice(0, Math.ceil(length * firstPickTopPercentile))\<close>.
\<close>

definition applyFirstPickBias :: "bool \<Rightarrow> WeightedCandidate list \<Rightarrow> WeightedCandidate list" where
  "applyFirstPickBias isFirstPick weightedCandidates =
     (if isFirstPick \<and> length weightedCandidates > 10
      then
        let sorted = sort_key (\<lambda>c. - weight c) weightedCandidates;
            topCount = nat \<lceil>real (length sorted) * firstPickTopPercentile\<rceil>
        in take topCount sorted
      else weightedCandidates)"

text \<open>
  \<open>pickMovie\<close>. The database is threaded through; only \<open>recordPick\<close> changes it. A
  rejected query makes the whole call reject (\<open>Inl\<close>), with the database as it was.
\<close>

definition pickMovie :: "database \<Rightarrow> real \<Rightarrow> string \<Rightarrow> PickFilters \<Rightarrow> database \<times> (store_error + Movie option)" where
  "pickMovie db u sid fs =
     (case getRecentPickMovieIds db sid of
        Inl e \<Rightarrow> (db, Inl e)
      | Inr recentPickIds \<Rightarrow>
     (case getCandidateMovies db fs recentPickIds of
        Inl e \<Rightarrow> (db, Inl e)
      | Inr candidates \<Rightarrow>
     if length candidates = 0 then (db, Inr None)
     else
     (case getMoviesGenres db (map MovieRow.id candidates) of
        Inl e \<Rightarrow> (db, Inl e)
      | Inr genresMap \<Rightarrow>
     let weightedCandidates =
           map (\<lambda>m. \<lparr> WeightedCandidate.movie = m, weight = calculateWeight m,
                      WeightedCandidate.genres =
                        (case genresMap (MovieRow.id m) of None \<Rightarrow> [] | Some gs \<Rightarrow> gs) \<rparr>)
               candidates
     in
     (case isFirstPickForSession db sid of
        Inl e \<Rightarrow> (db, Inl e)
      | Inr isFirstPick \<Rightarrow>
     (case weightedRandomSelect u (applyFirstPickBias isFirstPick weightedCandidates) of
        None \<Rightarrow> (db, Inr None)
      | Some selected \<Rightarrow>
     (case recordPick db sid (MovieRow.id (WeightedCandidate.movie selected)) fs of
        Inl e \<Rightarrow> (db, Inl e)
      | Inr db' \<Rightarrow>
          (db', Inr (Some (toMovie (WeightedCandidate.movie selected)
                                   (WeightedCandidate.genres selected))))))))))"

section \<open>The routes (routes/pick.ts, routes/candidates.ts, routes/search.ts)\<close>

text \<open>
  \<open>POST /pick\<close>. The request body is typed: the \<open>typeof\<close> and \<open>Array.isArray\<close>
  checks of the source hold of every \<open>PickRequest\<close> and are not repeated. The
  \<open>catch\<close> turns a rejected call into the 500 reply.
\<close>

definition pickRoute :: "database \<Rightarrow> real \<Rightarrow> PickRequest \<Rightarrow> database \<times> PickResponse reply" where
  "pickRoute db u request =
     (let sid = PickRequest.sessionId request;
          fs = PickRequest.filters request
      in
      if sid = [] \<or> length sid < 1 \<or> length sid > 255
      then (db, Reply400 ''Invalid session ID format.'')
      else if (case minDuration fs of None \<Rightarrow> False | Some d \<Rightarrow> d < 60)
      then (db, Reply400 ''minDuration must be at least 60 minutes.'')
      else if (case maxDuration fs of None \<Rightarrow> False | Some d \<Rightarrow> d < 60)
      then (db, Reply400 ''maxDuration must be at least 60 minutes.'')
      else
        (case pickMovie db u sid fs of
           (db', Inl e) \<Rightarrow> (db', Reply500 ''Failed to pick a movie. Please try again.'')
         | (db', Inr None) \<Rightarrow>
             (db', Reply200 \<lparr> PickResponse.movie = None,
                              message = Some ''No movies match your criteria. Try broader filters.'' \<rparr>)
         | (db', Inr (Some m)) \<Rightarrow>
             (db', Reply200 \<lparr> PickResponse.movie = Some m, message = None \<rparr>)))"

text \<open>\<open>[...new Set(xs)]\<close>: the first occurrence of each element, in order.\<close>

definition newSet :: "int list \<Rightarrow> int list" where
  "newSet xs = rev (remdups (rev xs))"

text \<open>\<open>xs.slice(0, k)\<close> for an integral \<open>k\<close>: a negative \<open>k\<close> counts from the end.\<close>

definition slice0 :: "int \<Rightarrow> 'a list \<Rightarrow> 'a list" where
  "slice0 k xs =
     (let len = int (length xs);
          final = (if k < 0 then max (len + k) 0 else min k len)
      in take (nat final) xs)"

text \<open>
  The exclusion list of \<open>POST /candidates\<close>: the recent picks of the session, when a
  session id is given, merged with the ids the client sends.
\<close>

definition candidatesExcludeIds :: "database \<Rightarrow> CandidatesRequest \<Rightarrow> store_error + int list" where
  "candidatesExcludeIds db request =
     (case (case CandidatesRequest.sessionId request of
              None \<Rightarrow> Inr []
            | Some s \<Rightarrow> if s \<noteq> [] then getRecentPickMovieIds db s else Inr []) of
        Inl e \<Rightarrow> Inl e
      | Inr recentIds \<Rightarrow>
          let clientExcludeIds = (case excludeMovieIds request of None \<Rightarrow> [] | Some xs \<Rightarrow> xs)
          in Inr (newSet (recentIds @ clientExcludeIds)))"

text \<open>
  \<open>POST /candidates\<close>. \<open>shuffle\<close> is what \<open>candidates.sort(() => Math.random() - 0.5)\<close>
  does to the array: the runtime's sort under a random comparator. The handler calls no
  query that writes; the database is returned as it was received.
\<close>

definition candidatesRoute ::
    "database \<Rightarrow> (MovieRow list \<Rightarrow> MovieRow list) \<Rightarrow> CandidatesRequest \<Rightarrow>
     database \<times> CandidatesResponse reply" where
  "candidatesRoute db shuffle request =
     (let fs = CandidatesRequest.filters request;
          lim = (case limit request of None \<Rightarrow> 30 | Some l \<Rightarrow> l)
      in
      (case candidatesExcludeIds db request of
         Inl e \<Rightarrow> (db, Reply500 ''Failed to fetch candidates.'')
       | Inr excludeIds \<Rightarrow>
      (case getCandidateMovies db fs excludeIds of
         Inl e \<Rightarrow> (db, Reply500 ''Failed to fetch candidates.'')
       | Inr candidates \<Rightarrow>
      if length candidates = 0 then (db, Reply200 \<lparr> CandidatesResponse.movies = [] \<rparr>)
      else
      let shuffled = shuffle candidates;
          selected = slice0 (min lim (int (length shuffled))) shuffled
      in
      (case getMoviesGenres db (map MovieRow.id selected) of
         Inl e \<Rightarrow> (db, Reply500 ''Failed to fetch candidates.'')
       | Inr genresMap \<Rightarrow>
          (db, Reply200 \<lparr> CandidatesResponse.movies =
                 map (\<lambda>m. toMovie m (case genresMap (MovieRow.id m) of None \<Rightarrow> [] | Some gs \<Rightarrow> gs))
                     selected \<rparr>)))))"

text \<open>\<open>String.prototype.trim\<close> on the ASCII white space.\<close>

definition isSpace :: "char \<Rightarrow> bool" where
  "isSpace c = ((of_char c :: nat) \<in> {9, 10, 11, 12, 13, 32})"

definition trim :: "string \<Rightarrow> string" where
  "trim s = rev (dropWhile isSpace (rev (dropWhile isSpace s)))"

text \<open>
  \<open>GET /movies/search\<close>. The query \<open>searchMovieByTitle\<close> is imported from db/queries
  but is not in the file at hand; the route takes it as a parameter.
\<close>

definition searchRoute ::
    "(database \<Rightarrow> string \<Rightarrow> store_error + MovieRow option) \<Rightarrow> database \<Rightarrow> string \<Rightarrow>
     SearchResponse reply" where
  "searchRoute searchMovieByTitle db ttl =
     (if ttl = [] \<or> length (trim ttl) = 0
      then Reply400 ''title query parameter is required''
      else
        (case searchMovieByTitle db (trim ttl) of
           Inl e \<Rightarrow> Reply500 ''Failed to search for movie.''
         | Inr None \<Rightarrow> Reply200 \<lparr> SearchResponse.movie = None \<rparr>
         | Inr (Some row) \<Rightarrow>
             (case getMovieGenres db (MovieRow.id row) of
                Inl e \<Rightarrow> Reply500 ''Failed to search for movie.''
              | Inr gs \<Rightarrow> Reply200 \<lparr> SearchResponse.movie = Some (toMovie row gs) \<rparr>)))"

section \<open>Example data\<close>

definition row1 :: MovieRow where
  "row1 = \<lparr> MovieRow.id = 1, tmdb_id = 101, MovieRow.title = ''Alpha'', original_title = ''Alpha'',
            MovieRow.year = 2015, MovieRow.runtime = Some 100, MovieRow.synopsis = Some ''first'',
            poster_path = Some ''/a.jpg'', vote_average = 7, vote_count = 999,
            original_language = ''en'', adult = False, created_at = 0 \<rparr>"

definition row2 :: MovieRow where
  "row2 = \<lparr> MovieRow.id = 2, tmdb_id = 102, MovieRow.title = ''Beta'', original_title = ''Beta'',
            MovieRow.year = 2016, MovieRow.runtime = None, MovieRow.synopsis = None,
            poster_path = Some [], vote_average = 5, vote_count = 0,
            original_language = ''fr'', adult = False, created_at = 0 \<rparr>"

definition zero1 :: WeightedCandidate where
  "zero1 = \<lparr> WeightedCandidate.movie = row1, weight = 0, WeightedCandidate.genres = [] \<rparr>"

definition zero2 :: WeightedCandidate where
  "zero2 = \<lparr> WeightedCandidate.movie = row2, weight = 0, WeightedCandidate.genres = [] \<rparr>"

definition row3 :: MovieRow where
  "row3 = \<lparr> MovieRow.id = 3, tmdb_id = 103, MovieRow.title = ''Gamma'', original_title = ''Gamma'',
            MovieRow.year = 2021, MovieRow.runtime = Some 95, MovieRow.synopsis = Some ''third'',
            poster_path = None, vote_average = 8, vote_count = 5000,
            original_language = ''en'', adult = False, created_at = 0 \<rparr>"

definition noFilters :: PickFilters where
  "noFilters = \<lparr> genreIds = None, era = None, origin = None, minDuration = None, maxDuration = None \<rparr>"

definition comedyFilters :: PickFilters where
  "comedyFilters = noFilters \<lparr> genreIds := Some [35] \<rparr>"

definition eightiesFilters :: PickFilters where
  "eightiesFilters = noFilters \<lparr> era := Some Era_1980_1989 \<rparr>"

definition session1 :: string where
  "session1 = ''123e4567-e89b-12d3-a456-426614174000''"

definition pick0 :: UserPick where
  "pick0 = \<lparr> UserPick.id = 1, session_id = session1, UserPick.movie_id = 3,
             UserPick.filters = noFilters, UserPick.created_at = 4 \<rparr>"

definition exampleDb :: database where
  "exampleDb = \<lparr> database.movies = [row1, row2, row3],
                 database.genres = [\<lparr> Genre.id = 35, name = ''Comedy'' \<rparr>, \<lparr> Genre.id = 18, name = ''Drama'' \<rparr>],
                 movie_genres = [\<lparr> MovieGenre.movie_id = 1, genre_id = 35 \<rparr>,
                                 \<lparr> MovieGenre.movie_id = 3, genre_id = 18 \<rparr>,
                                 \<lparr> MovieGenre.movie_id = 3, genre_id = 35 \<rparr>],
                 user_picks = [pick0],
                 user_picks_id_seq = 1,
                 clock = 5,
                 reachable = True \<rparr>"

definition eleven :: "WeightedCandidate list" where
  "eleven = map (\<lambda>w. \<lparr> WeightedCandidate.movie = row1, weight = w, WeightedCandidate.genres = [] \<rparr>)
                [3, 1, 4, 1, 5, 9, 2, 6, 5, 3, 5]"

definition bigRow :: "nat \<Rightarrow> MovieRow" where
  "bigRow i = row1 \<lparr> MovieRow.id := int i, tmdb_id := int i \<rparr>"

definition bigDb :: database where
  "bigDb = exampleDb \<lparr> database.movies := map bigRow [1..<1002] \<rparr>"

definition browseAll :: "int \<Rightarrow> CandidatesRequest" where
  "browseAll l = \<lparr> CandidatesRequest.filters = noFilters, limit = Some l,
                   CandidatesRequest.sessionId = None, excludeMovieIds = None \<rparr>"

definition browseComedy :: CandidatesRequest where
  "browseComedy = \<lparr> CandidatesRequest.filters = comedyFilters, limit = Some 1,
                   CandidatesRequest.sessionId = None, excludeMovieIds = None \<rparr>"

text \<open>A stand-in for the absent \<open>searchMovieByTitle\<close>, for the examples: the first
  row with exactly the given title.\<close>

definition exampleSearch :: "database \<Rightarrow> string \<Rightarrow> store_error + MovieRow option" where
  "exampleSearch db t =
     (if \<not> reachable db then Inl StoreUnavailable
      else Inr (find (\<lambda>m. MovieRow.title m = t) (database.movies db)))"

section \<open>The weight function\<close>

lemma log10_zero_iff: "0 \<le> n \<Longrightarrow> (log 10 (real_of_int (n + 1)) = 0) = (n = 0)"
proof -
  assume "0 \<le> n"
  then have pos: "0 < real_of_int (n + 1)" by simp
  have "(log 10 (real_of_int (n + 1)) = 0) =
        (0 \<le> log 10 (real_of_int (n + 1)) \<and> log 10 (real_of_int (n + 1)) \<le> 0)"
    by linarith
  also have "\<dots> = (1 \<le> real_of_int (n + 1) \<and> real_of_int (n + 1) \<le> 1)"
    using pos by simp
  also have "\<dots> = (n = 0)" by linarith
  finally show ?thesis .
qed

lemma log10_pos: "0 < n \<Longrightarrow> 0 < log 10 (real_of_int (n + 1))"
  by simp

text \<open>
  C2, as amended. With \<open>vote_count \<ge> 0\<close> the weight is zero exactly when
  \<open>vote_average\<close> is zero or \<open>vote_count\<close> is zero (then \<open>log10 1 = 0\<close>), and it is
  strictly positive when \<open>vote_average > 0\<close> and \<open>vote_count \<ge> 1\<close>.
\<close>

theorem calculateWeight_sign:
  "0 \<le> vote_count m \<Longrightarrow>
     (calculateWeight m = 0) = (vote_average m = 0 \<or> vote_count m = 0) \<and>
     (0 < vote_average m \<and> 1 \<le> vote_count m \<longrightarrow> 0 < calculateWeight m)"
proof -
  assume nonneg: "0 \<le> vote_count m"
  have zero: "(calculateWeight m = 0) = (vote_average m = 0 \<or> vote_count m = 0)"
    using log10_zero_iff [OF nonneg] by (simp add: calculateWeight_def)
  have pos: "0 < vote_average m \<and> 1 \<le> vote_count m \<longrightarrow> 0 < calculateWeight m"
    using log10_pos [of "vote_count m"] by (simp add: calculateWeight_def)
  from zero pos show ?thesis by blast
qed

theorem calculateWeight_sign_witness:
  "(0::int) \<le> vote_count row1 \<and> calculateWeight row1 \<noteq> 0 \<and> 0 < calculateWeight row1"
  using calculateWeight_sign [of row1] by (simp add: row1_def)

text \<open>
  C2 as stated fails: a row with \<open>vote_average = 5 > 0\<close> and \<open>vote_count = 0 \<ge> 0\<close>
  has weight \<open>0.5 * log10 1 = 0\<close>, neither positive nor tied to \<open>vote_average = 0\<close>.
\<close>

theorem calculateWeight_zero_votes_counterexample:
  "0 \<le> vote_count row2 \<and> 0 < vote_average row2 \<and> \<not> 0 < calculateWeight row2 \<and>
   calculateWeight row2 = 0 \<and> vote_average row2 \<noteq> 0"
  by (simp add: calculateWeight_def row2_def)

section \<open>The sampler, the candidate fetch and the orchestrator\<close>

lemma selectLoop_mem: "selectLoop r cs = Some c \<Longrightarrow> c \<in> set cs"
  by (induction cs arbitrary: r) (auto simp: Let_def split: if_splits)

lemma weightedRandomSelect_mem: "weightedRandomSelect u cs = Some c \<Longrightarrow> c \<in> set cs"
  by (auto simp: weightedRandomSelect_def Let_def split: if_splits option.splits dest: selectLoop_mem)

lemma weightedRandomSelect_nonempty: "cs \<noteq> [] \<Longrightarrow> \<exists>c. weightedRandomSelect u cs = Some c"
  by (simp add: weightedRandomSelect_def Let_def split: option.splits)

lemma weightedRandomSelect_None: "(weightedRandomSelect u cs = None) = (cs = [])"
  by (simp add: weightedRandomSelect_def Let_def split: option.splits)

lemma totalWeight_zero:
  "\<forall>c\<in>set cs. weight c = 0 \<Longrightarrow> foldl (\<lambda>sum c. sum + weight c) acc cs = acc"
  by (induction cs arbitrary: acc) auto

text \<open>
  C1, as amended. On a non-empty list whose weights are all zero the sampler returns the
  first candidate, whatever the random draw: the total is \<open>0\<close>, the running value is
  \<open>0\<close>, and the first test \<open>random <= 0\<close> succeeds. The result is a member of the
  list and is never \<open>null\<close>; the function has no division and its loop is a single pass
  over the list.
\<close>

theorem weightedRandomSelect_all_zero:
  "candidates \<noteq> [] \<Longrightarrow> \<forall>c\<in>set candidates. weight c = 0 \<Longrightarrow>
     weightedRandomSelect u candidates = Some (hd candidates) \<and> hd candidates \<in> set candidates"
proof -
  assume ne: "candidates \<noteq> []" and zero: "\<forall>c\<in>set candidates. weight c = 0"
  have total: "foldl (\<lambda>sum c. sum + weight c) 0 candidates = 0"
    using totalWeight_zero [OF zero] .
  have first: "selectLoop 0 candidates = Some (hd candidates)"
    using ne zero by (cases candidates) simp_all
  show ?thesis using ne total first by (simp add: weightedRandomSelect_def)
qed

theorem weightedRandomSelect_all_zero_witness:
  "weightedRandomSelect (1 / 2) [zero1, zero2] = Some zero1"
  using weightedRandomSelect_all_zero [of "[zero1, zero2]" "1 / 2"]
  by (simp add: zero1_def zero2_def)

text \<open>
  C1 as stated fails: of two distinct candidates of weight zero, no draw in \<open>[0, 1)\<close>
  ever returns the second, so the choice is not uniform.
\<close>

theorem weightedRandomSelect_not_uniform_counterexample:
  "zero1 \<noteq> zero2 \<and> weight zero1 = 0 \<and> weight zero2 = 0 \<and>
   \<not> (\<exists>u. 0 \<le> u \<and> u < 1 \<and> weightedRandomSelect u [zero1, zero2] = Some zero2)"
  by (simp add: weightedRandomSelect_def zero1_def zero2_def row1_def row2_def)

lemma set_applyFirstPickBias: "set (applyFirstPickBias b wcs) \<subseteq> set wcs"
  by (auto simp: applyFirstPickBias_def Let_def dest: in_set_takeD)

lemma fromMovies_fst: "(m, mg) \<in> set (fromMovies db j) \<Longrightarrow> m \<in> set (database.movies db)"
  by (auto simp: fromMovies_def split: if_splits)

lemma matchingRows_holds:
  assumes "m \<in> set (matchingRows db conditions j)"
  shows "m \<in> set (database.movies db) \<and> (\<exists>mg. list_all (\<lambda>c. holds c m mg) conditions)"
proof -
  from assms obtain mg where row: "(m, mg) \<in> set (fromMovies db j)"
      and all: "list_all (\<lambda>c. holds c m mg) conditions"
    by (auto simp: matchingRows_def)
  from fromMovies_fst [OF row] all show ?thesis by blast
qed

lemma selectCandidates_holds:
  assumes "m \<in> set (selectCandidates db conditions j)"
  shows "m \<in> set (database.movies db) \<and> (\<exists>mg. list_all (\<lambda>c. holds c m mg) conditions)"
proof -
  from assms have "m \<in> set (matchingRows db conditions j)"
    unfolding selectCandidates_def by (rule in_set_takeD)
  then show ?thesis by (rule matchingRows_holds)
qed

lemma getCandidateMovies_holds:
  "getCandidateMovies db fs ex = Inr cs \<Longrightarrow> m \<in> set cs \<Longrightarrow>
     m \<in> set (database.movies db) \<and> (\<exists>mg. list_all (\<lambda>c. holds c m mg) (fst (candidateConditions fs ex)))"
  by (auto simp: getCandidateMovies_def split: if_splits prod.splits dest: selectCandidates_holds)

lemma floors_in_conditions:
  "c \<in> {AdultIsFalse, RuntimeIsNotNull, RuntimeGe minRuntime, VoteCountGe minVoteCount,
          VoteAverageGe minVoteAverage} \<Longrightarrow> c \<in> set (fst (candidateConditions fs ex))"
  by (auto simp: candidateConditions_def Let_def)

lemma exclude_in_conditions:
  "ex \<noteq> [] \<Longrightarrow> IdNotAll ex \<in> set (fst (candidateConditions fs ex))"
  by (simp add: candidateConditions_def Let_def)

text \<open>
  C4. Whatever the filters and the exclusion list, every row the candidate fetch returns
  is not adult, has a runtime that is present and at least 60, a vote count of at least
  500 and a vote average of at least 5.5.
\<close>

theorem getCandidateMovies_quality_floors:
  "getCandidateMovies db fs ex = Inr cs \<Longrightarrow>
     \<forall>m\<in>set cs. adult m = False \<and> (\<exists>r. MovieRow.runtime m = Some r \<and> 60 \<le> r) \<and>
                  500 \<le> vote_count m \<and> 55 / 10 \<le> vote_average m"
proof
  fix m assume cs: "getCandidateMovies db fs ex = Inr cs" and m: "m \<in> set cs"
  from getCandidateMovies_holds [OF cs m] obtain mg
    where all: "list_all (\<lambda>c. holds c m mg) (fst (candidateConditions fs ex))" by blast
  have h: "\<And>c. c \<in> set (fst (candidateConditions fs ex)) \<Longrightarrow> holds c m mg"
    using all by (simp add: list_all_iff)
  have "holds AdultIsFalse m mg" by (rule h, rule floors_in_conditions) simp
  moreover have "holds (RuntimeGe minRuntime) m mg" by (rule h, rule floors_in_conditions) simp
  moreover have "holds (VoteCountGe minVoteCount) m mg" by (rule h, rule floors_in_conditions) simp
  moreover have "holds (VoteAverageGe minVoteAverage) m mg" by (rule h, rule floors_in_conditions) simp
  ultimately show "adult m = False \<and> (\<exists>r. MovieRow.runtime m = Some r \<and> 60 \<le> r) \<and>
             500 \<le> vote_count m \<and> 55 / 10 \<le> vote_average m"
    by (auto simp: minRuntime_def minVoteCount_def minVoteAverage_def split: option.splits)
qed

lemma getCandidateMovies_excludes:
  "getCandidateMovies db fs ex = Inr cs \<Longrightarrow> m \<in> set cs \<Longrightarrow> MovieRow.id m \<notin> set ex"
proof (cases "ex = []")
  case True then show ?thesis by simp
next
  case False
  assume cs: "getCandidateMovies db fs ex = Inr cs" and m: "m \<in> set cs"
  from getCandidateMovies_holds [OF cs m] obtain mg
    where all: "list_all (\<lambda>c. holds c m mg) (fst (candidateConditions fs ex))" by blast
  then have "holds (IdNotAll ex) m mg"
    using exclude_in_conditions [OF False, of fs] by (auto simp: list_all_iff)
  then show ?thesis by simp
qed


lemma pickMovie_Some:
  "pickMovie db u sid fs = (db', Inr (Some mv)) \<Longrightarrow>
     \<exists>recent cands gm first sel.
       getRecentPickMovieIds db sid = Inr recent \<and>
       getCandidateMovies db fs recent = Inr cands \<and>
       getMoviesGenres db (map MovieRow.id cands) = Inr gm \<and>
       isFirstPickForSession db sid = Inr first \<and>
       weightedRandomSelect u (applyFirstPickBias first
         (map (\<lambda>m. \<lparr> WeightedCandidate.movie = m, weight = calculateWeight m,
                      WeightedCandidate.genres = (case gm (MovieRow.id m) of None \<Rightarrow> [] | Some gs \<Rightarrow> gs) \<rparr>)
              cands)) = Some sel \<and>
       recordPick db sid (MovieRow.id (WeightedCandidate.movie sel)) fs = Inr db' \<and>
       mv = toMovie (WeightedCandidate.movie sel) (WeightedCandidate.genres sel)"
  by (auto simp: pickMovie_def Let_def split: sum.splits if_splits option.splits)

lemma pickMovie_not_Some:
  "pickMovie db u sid fs = (db', r) \<Longrightarrow> (\<forall>mv. r \<noteq> Inr (Some mv)) \<Longrightarrow> db' = db"
  by (auto simp: pickMovie_def Let_def split: sum.splits if_splits option.splits)

lemma toMovie_id: "Movie.id (toMovie row gs) = MovieRow.id row"
  by (simp add: toMovie_def)

text \<open>
  C3. A movie returned by \<open>pickMovie\<close> has an id outside the list of recent picks that
  \<open>getRecentPickMovieIds\<close> yields for the session on the database the call starts from.
\<close>

theorem pickMovie_avoids_recent:
  "pickMovie db u sid fs = (db', Inr (Some mv)) \<Longrightarrow>
     \<exists>recent. getRecentPickMovieIds db sid = Inr recent \<and> Movie.id mv \<notin> set recent"
proof -
  assume "pickMovie db u sid fs = (db', Inr (Some mv))"
  from pickMovie_Some [OF this] obtain recent cands gm first sel where
    recent: "getRecentPickMovieIds db sid = Inr recent" and
    cands: "getCandidateMovies db fs recent = Inr cands" and
    sel: "weightedRandomSelect u (applyFirstPickBias first
         (map (\<lambda>m. \<lparr> WeightedCandidate.movie = m, weight = calculateWeight m,
                      WeightedCandidate.genres = (case gm (MovieRow.id m) of None \<Rightarrow> [] | Some gs \<Rightarrow> gs) \<rparr>)
              cands)) = Some sel" and
    mv: "mv = toMovie (WeightedCandidate.movie sel) (WeightedCandidate.genres sel)"
    by blast
  from weightedRandomSelect_mem [OF sel] set_applyFirstPickBias
  have "sel \<in> set (map (\<lambda>m. \<lparr> WeightedCandidate.movie = m, weight = calculateWeight m,
                      WeightedCandidate.genres = (case gm (MovieRow.id m) of None \<Rightarrow> [] | Some gs \<Rightarrow> gs) \<rparr>)
              cands)" by blast
  then have "WeightedCandidate.movie sel \<in> set cands" by auto
  from getCandidateMovies_excludes [OF cands this] recent mv show ?thesis
    by (simp add: toMovie_id)
qed

lemma pickMovie_Some_db:
  "pickMovie db u sid fs = (db', Inr (Some mv)) \<Longrightarrow>
     db' = db \<lparr> user_picks := user_picks db @
                        [\<lparr> UserPick.id = Suc (user_picks_id_seq db), session_id = sid,
                           UserPick.movie_id = Movie.id mv, UserPick.filters = fs,
                           UserPick.created_at = clock db \<rparr>],
                     user_picks_id_seq := Suc (user_picks_id_seq db) \<rparr>"
  by (auto simp: pickMovie_def recordPick_def toMovie_id Let_def
           split: sum.splits if_splits option.splits)

text \<open>
  C5. A call of \<open>pickMovie\<close> that returns a movie leaves the database with exactly one
  more row in \<open>user_picks\<close>, holding the session id, the id of the returned movie and
  the filters passed in; a call that returns no movie (no candidates, or a rejected query)
  leaves the database as it was, so the write happens only after a successful sample.
\<close>

theorem pickMovie_records_once:
  "pickMovie db u sid fs = (db', r) \<Longrightarrow>
     (case r of
        Inr (Some mv) \<Rightarrow>
          db' = db \<lparr> user_picks := user_picks db @
                        [\<lparr> UserPick.id = Suc (user_picks_id_seq db), session_id = sid,
                           UserPick.movie_id = Movie.id mv, UserPick.filters = fs,
                           UserPick.created_at = clock db \<rparr>],
                     user_picks_id_seq := Suc (user_picks_id_seq db) \<rparr>
      | _ \<Rightarrow> db' = db)"
proof (cases "\<exists>mv. r = Inr (Some mv)")
  case True
  assume run: "pickMovie db u sid fs = (db', r)"
  from True obtain mv where r: "r = Inr (Some mv)" by blast
  from pickMovie_Some_db [OF run [unfolded r]] show ?thesis by (simp add: r)
next
  case False
  assume run: "pickMovie db u sid fs = (db', r)"
  from pickMovie_not_Some [OF run] False have "db' = db" by blast
  with False show ?thesis by (auto split: sum.splits option.splits)
qed

text \<open>
  C6. When the candidate fetch returns the empty list, \<open>pickMovie\<close> returns \<open>null\<close> and
  leaves the database unchanged, and for a request that passes the route's validation
  \<open>POST /pick\<close> answers with status 200, a null movie and a non-empty message: a reply,
  not the 500 of a thrown failure.
\<close>

theorem pickMovie_no_match:
  "getRecentPickMovieIds db sid = Inr recent \<Longrightarrow> getCandidateMovies db fs recent = Inr [] \<Longrightarrow>
   0 < length sid \<Longrightarrow> length sid \<le> 255 \<Longrightarrow>
   \<forall>d. minDuration fs = Some d \<longrightarrow> 60 \<le> d \<Longrightarrow> \<forall>d. maxDuration fs = Some d \<longrightarrow> 60 \<le> d \<Longrightarrow>
     pickMovie db u sid fs = (db, Inr None) \<and>
     pickRoute db u \<lparr> PickRequest.sessionId = sid, PickRequest.filters = fs \<rparr> =
       (db, Reply200 \<lparr> PickResponse.movie = None,
                       message = Some ''No movies match your criteria. Try broader filters.'' \<rparr>) \<and>
     ''No movies match your criteria. Try broader filters.'' \<noteq> []"
  by (auto simp: pickMovie_def pickRoute_def split: option.splits)

lemma ex_recent: "getRecentPickMovieIds exampleDb session1 = Inr [3]"
  by (simp add: getRecentPickMovieIds_def exampleDb_def pick0_def recentPicksLimit_def)

lemma ex_cands: "getCandidateMovies exampleDb noFilters [3] = Inr [row1]"
  by (simp add: getCandidateMovies_def candidateConditions_def selectCandidates_def matchingRows_def fromMovies_def
     exampleDb_def noFilters_def row1_def row2_def row3_def minRuntime_def minVoteCount_def minVoteAverage_def inSmallint_def inInteger_def)

lemma ex_cands80: "getCandidateMovies exampleDb eightiesFilters [3] = Inr []"
  by (simp add: getCandidateMovies_def candidateConditions_def selectCandidates_def matchingRows_def fromMovies_def
     exampleDb_def noFilters_def eightiesFilters_def row1_def row2_def row3_def minRuntime_def minVoteCount_def minVoteAverage_def inSmallint_def inInteger_def)

lemma row1_id: "MovieRow.id row1 = 1"
  by (simp add: row1_def)

lemma exampleDb_fields:
  "reachable exampleDb" "user_picks exampleDb = [pick0]" "user_picks_id_seq exampleDb = 1"
  "clock exampleDb = 5"
  by (simp_all add: exampleDb_def)

lemma ex_genres: "getMoviesGenres exampleDb [1] = Inr [1 \<mapsto> [''Comedy'']]"
  by (simp add: getMoviesGenres_def exampleDb_def)

lemma ex_first: "isFirstPickForSession exampleDb session1 = Inr False"
  by (simp add: isFirstPickForSession_def exampleDb_def pick0_def)

lemma ex_weight: "0 \<le> calculateWeight row1"
  by (simp add: calculateWeight_def row1_def)

lemma ex_select: "weightedRandomSelect 0 [\<lparr> WeightedCandidate.movie = row1, weight = calculateWeight row1,
                      WeightedCandidate.genres = [''Comedy''] \<rparr>] = Some \<lparr> WeightedCandidate.movie = row1, weight = calculateWeight row1,
                      WeightedCandidate.genres = [''Comedy''] \<rparr>"
  using ex_weight by (simp add: weightedRandomSelect_def)

lemma ex_pick: "pickMovie exampleDb 0 session1 noFilters =
   (exampleDb \<lparr> user_picks := [pick0, \<lparr> UserPick.id = 2, session_id = session1, UserPick.movie_id = 1,
              UserPick.filters = noFilters, UserPick.created_at = 5 \<rparr>], user_picks_id_seq := 2 \<rparr>,
    Inr (Some (toMovie row1 [''Comedy''])))"
  by (simp add: pickMovie_def ex_recent ex_cands ex_genres ex_first ex_select row1_id
        applyFirstPickBias_def recordPick_def exampleDb_fields)

theorem pickMovie_avoids_recent_witness:
  "pickMovie exampleDb 0 session1 noFilters =
   (exampleDb \<lparr> user_picks := [pick0, \<lparr> UserPick.id = 2, session_id = session1, UserPick.movie_id = 1,
              UserPick.filters = noFilters, UserPick.created_at = 5 \<rparr>], user_picks_id_seq := 2 \<rparr>,
    Inr (Some (toMovie row1 [''Comedy'']))) \<and>
   getRecentPickMovieIds exampleDb session1 = Inr [3] \<and>
   Movie.id (toMovie row1 [''Comedy'']) \<notin> set [3]"
  using pickMovie_avoids_recent [OF ex_pick] ex_pick ex_recent by simp

theorem pickMovie_records_once_witness:
  "pickMovie exampleDb 0 session1 noFilters =
   (exampleDb \<lparr> user_picks := [pick0, \<lparr> UserPick.id = 2, session_id = session1, UserPick.movie_id = 1,
              UserPick.filters = noFilters, UserPick.created_at = 5 \<rparr>], user_picks_id_seq := 2 \<rparr>,
    Inr (Some (toMovie row1 [''Comedy''])))"
  using pickMovie_records_once [OF ex_pick] ex_pick by simp

theorem pickMovie_no_match_witness:
  "pickMovie exampleDb 0 session1 eightiesFilters = (exampleDb, Inr None) \<and>
   pickRoute exampleDb 0 \<lparr> PickRequest.sessionId = session1, PickRequest.filters = eightiesFilters \<rparr> =
     (exampleDb, Reply200 \<lparr> PickResponse.movie = None,
        message = Some ''No movies match your criteria. Try broader filters.'' \<rparr>)"
  using pickMovie_no_match [OF ex_recent ex_cands80, of 0]
  by (simp add: eightiesFilters_def noFilters_def session1_def)

theorem getCandidateMovies_quality_floors_witness:
  "getCandidateMovies exampleDb noFilters [3] = Inr [row1] \<and> adult row1 = False \<and>
   MovieRow.runtime row1 = Some 100 \<and> (60::int) \<le> 100 \<and> 500 \<le> vote_count row1 \<and>
   55 / 10 \<le> vote_average row1"
  using getCandidateMovies_quality_floors [OF ex_cands] ex_cands by (simp add: row1_def)


section \<open>The first-pick bias stage and the empty filter arrays\<close>

lemma topCount_le: "nat \<lceil>real n * firstPickTopPercentile\<rceil> \<le> n"
proof -
  have "real n * firstPickTopPercentile \<le> real n"
    by (simp add: firstPickTopPercentile_def)
  then have "\<lceil>real n * firstPickTopPercentile\<rceil> \<le> int n"
    by (simp add: ceiling_le_iff)
  then show ?thesis by linarith
qed

lemma sorted_desc_split:
  assumes "sorted (map f xs)"
  shows "\<forall>a\<in>set (take k xs). \<forall>b\<in>set (drop k xs). f a \<le> f b"
proof -
  have "sorted (map f (take k xs) @ map f (drop k xs))"
    using assms by (simp flip: map_append)
  then show ?thesis by (auto simp: sorted_append)
qed

lemma mset_minus_take: "mset xs - mset (take k xs) = mset (drop k xs)"
proof -
  have "mset xs = mset (take k xs) + mset (drop k xs)"
    by (simp flip: mset_append)
  then show ?thesis by simp
qed

text \<open>
  C7. For a first pick with more than ten candidates the bias stage keeps exactly
  \<open>ceil(n * firstPickTopPercentile)\<close> of the \<open>n\<close> candidates (30 of 100), the kept
  candidates are among the given ones, and every kept weight is at least every discarded
  weight. The discarded candidates are the given ones less the kept ones, as multisets.
\<close>

theorem applyFirstPickBias_top_percentile:
  "isFirstPick \<Longrightarrow> 10 < length wcs \<Longrightarrow>
     length (applyFirstPickBias isFirstPick wcs) = nat \<lceil>real (length wcs) * firstPickTopPercentile\<rceil> \<and>
     (length wcs = 100 \<longrightarrow> length (applyFirstPickBias isFirstPick wcs) = 30) \<and>
     mset (applyFirstPickBias isFirstPick wcs) \<subseteq># mset wcs \<and>
     (\<forall>a\<in>#mset (applyFirstPickBias isFirstPick wcs).
        \<forall>b\<in>#mset wcs - mset (applyFirstPickBias isFirstPick wcs). weight b \<le> weight a)"
proof -
  assume first: "isFirstPick" and big: "10 < length wcs"
  define srt where "srt = sort_key (\<lambda>c. - weight c) wcs"
  define k where "k = nat \<lceil>real (length wcs) * firstPickTopPercentile\<rceil>"
  have kept: "applyFirstPickBias isFirstPick wcs = take k srt"
    using first big by (simp add: applyFirstPickBias_def srt_def k_def)
  have k_le: "k \<le> length wcs" unfolding k_def by (rule topCount_le)
  have len: "length (take k srt) = k" using k_le by (simp add: srt_def)
  have hundred: "length wcs = 100 \<longrightarrow> k = 30"
    by (simp add: k_def firstPickTopPercentile_def)
  have perm: "mset srt = mset wcs" by (simp add: srt_def)
  have sub: "mset (take k srt) \<subseteq># mset wcs"
    using perm by (metis append_take_drop_id mset_append mset_subset_eq_add_left)
  have rest: "mset wcs - mset (take k srt) = mset (drop k srt)"
    using mset_minus_take [of srt k] perm by simp
  have "sorted (map (\<lambda>c. - weight c) srt)" by (simp add: srt_def)
  from sorted_desc_split [OF this, of k]
  have order: "\<forall>a\<in>set (take k srt). \<forall>b\<in>set (drop k srt). weight b \<le> weight a" by simp
  have "length (take k srt) = k \<and>
        (length wcs = 100 \<longrightarrow> length (take k srt) = 30) \<and>
        mset (take k srt) \<subseteq># mset wcs \<and>
        (\<forall>a\<in>#mset (take k srt). \<forall>b\<in>#mset wcs - mset (take k srt). weight b \<le> weight a)"
    using len hundred sub order by (simp only: rest set_mset_mset)
  then show ?thesis unfolding kept k_def .
qed

lemma eleven_biased:
  "map weight (applyFirstPickBias True eleven) = [9, 6, 5, 5]"
  by (simp add: applyFirstPickBias_def eleven_def firstPickTopPercentile_def)

theorem applyFirstPickBias_top_percentile_witness:
  "10 < length eleven \<and> length (applyFirstPickBias True eleven) = 4 \<and>
   map weight (applyFirstPickBias True eleven) = [9, 6, 5, 5]"
  using applyFirstPickBias_top_percentile [of True eleven] eleven_biased
  by (simp add: eleven_def firstPickTopPercentile_def)

text \<open>
  C9. An empty \<open>genreIds\<close> array and an empty \<open>origin\<close> array give the same clause
  list and join flag, hence the same result, as the absent field.
\<close>

theorem empty_arrays_add_no_constraint:
  "candidateConditions (fs \<lparr> genreIds := Some [] \<rparr>) ex = candidateConditions (fs \<lparr> genreIds := None \<rparr>) ex \<and>
   getCandidateMovies db (fs \<lparr> genreIds := Some [] \<rparr>) ex = getCandidateMovies db (fs \<lparr> genreIds := None \<rparr>) ex \<and>
   candidateConditions (fs \<lparr> origin := Some [] \<rparr>) ex = candidateConditions (fs \<lparr> origin := None \<rparr>) ex \<and>
   getCandidateMovies db (fs \<lparr> origin := Some [] \<rparr>) ex = getCandidateMovies db (fs \<lparr> origin := None \<rparr>) ex"
  by (simp add: getCandidateMovies_def candidateConditions_def)

theorem empty_arrays_add_no_constraint_witness:
  "getCandidateMovies exampleDb (noFilters \<lparr> genreIds := Some [] \<rparr>) [3] = Inr [row1] \<and>
   getCandidateMovies exampleDb (noFilters \<lparr> origin := Some [] \<rparr>) [3] = Inr [row1]"
proof -
  have same: "noFilters \<lparr> genreIds := None \<rparr> = noFilters" "noFilters \<lparr> origin := None \<rparr> = noFilters"
    by (simp_all add: noFilters_def)
  show ?thesis
    using empty_arrays_add_no_constraint [of noFilters "[3]" exampleDb] ex_cands
    by (simp add: same)
qed


section \<open>Batch browse and the resolved movie\<close>

lemma getCandidateMovies_Inr:
  assumes "getCandidateMovies db fs ex = Inr pool"
  shows "reachable db"
    and "pool = take 1000 (matchingRows db (fst (candidateConditions fs ex)) (snd (candidateConditions fs ex)))"
  using assms
  by (auto simp: getCandidateMovies_def selectCandidates_def split: if_splits prod.splits)

lemma getCandidateMovies_accepts:
  "reachable db \<Longrightarrow> list_all paramsInRange (fst (candidateConditions fs ex)) \<Longrightarrow>
     getCandidateMovies db fs ex =
       Inr (take 1000 (matchingRows db (fst (candidateConditions fs ex)) (snd (candidateConditions fs ex))))"
  by (cases "candidateConditions fs ex") (simp add: getCandidateMovies_def selectCandidates_def)

lemma getMoviesGenres_reachable: "reachable db \<Longrightarrow> \<exists>gm. getMoviesGenres db ids = Inr gm"
  by (simp add: getMoviesGenres_def Let_def)

lemma distinct_matchingRows: "distinct (matchingRows db cs j)"
  by (simp add: matchingRows_def)

lemma distinct_ids_matchingRows:
  assumes "distinct (map MovieRow.id (database.movies db))"
  shows "distinct (map MovieRow.id (matchingRows db cs j))"
proof -
  have sub: "set (matchingRows db cs j) \<subseteq> set (database.movies db)"
    using matchingRows_holds by blast
  from assms have "inj_on MovieRow.id (set (database.movies db))"
    by (simp add: distinct_map)
  then have "inj_on MovieRow.id (set (matchingRows db cs j))"
    using sub by (rule inj_on_subset)
  then show ?thesis by (simp add: distinct_map distinct_matchingRows)
qed

lemma matchingRows_row:
  "m \<in> set (matchingRows db cs j) \<Longrightarrow>
     \<exists>mg. (m, mg) \<in> set (fromMovies db j) \<and> list_all (\<lambda>c. holds c m mg) cs"
  by (auto simp: matchingRows_def)

lemma fromMovies_join:
  "(m, mg) \<in> set (fromMovies db True) \<Longrightarrow>
     \<exists>g\<in>set (movie_genres db). mg = Some g \<and> MovieGenre.movie_id g = MovieRow.id m"
  by (auto simp: fromMovies_def)

lemma genre_clause:
  "genreIds fs = Some gs \<Longrightarrow> gs \<noteq> [] \<Longrightarrow>
     snd (candidateConditions fs ex) \<and> GenreIdAny gs \<in> set (fst (candidateConditions fs ex))"
  by (simp add: candidateConditions_def Let_def)

lemma row_has_requested_genre:
  assumes row: "(m, mg) \<in> set (fromMovies db (snd (candidateConditions fs ex)))"
      and all: "list_all (\<lambda>c. holds c m mg) (fst (candidateConditions fs ex))"
      and gs: "genreIds fs = Some gs" "gs \<noteq> []"
  shows "\<exists>g\<in>set (movie_genres db). MovieGenre.movie_id g = MovieRow.id m \<and> genre_id g \<in> set gs"
proof -
  from genre_clause [OF gs, of ex] have j: "snd (candidateConditions fs ex)"
    and c: "GenreIdAny gs \<in> set (fst (candidateConditions fs ex))" by simp_all
  from row j have "(m, mg) \<in> set (fromMovies db True)" by simp
  from fromMovies_join [OF this] obtain g where g: "g \<in> set (movie_genres db)" "mg = Some g"
    "MovieGenre.movie_id g = MovieRow.id m" by blast
  from all c have "holds (GenreIdAny gs) m mg" by (auto simp: list_all_iff)
  with g show ?thesis by auto
qed

lemma slice0_limit: "0 \<le> k \<Longrightarrow> slice0 (min k (int (length xs))) xs = take (nat k) xs"
proof -
  assume k: "0 \<le> k"
  show ?thesis
  proof (cases "k \<le> int (length xs)")
    case True
    with k show ?thesis by (simp add: slice0_def Let_def)
  next
    case False
    then have "length xs \<le> nat k" by linarith
    with False show ?thesis by (simp add: slice0_def Let_def)
  qed
qed

lemma shuffle_take_props:
  assumes perm: "mset ys = mset xs" and dist: "distinct (map f xs)"
  shows "length (take k ys) = min k (length xs)" "distinct (map f (take k ys))"
        "set (take k ys) \<subseteq> set xs"
proof -
  from perm have len: "length ys = length xs" by (rule mset_eq_length)
  then show "length (take k ys) = min k (length xs)" by simp
  have "mset (map f ys) = mset (map f xs)" using perm by simp
  then have "distinct (map f ys)" using dist by (metis mset_eq_imp_distinct_iff)
  then show "distinct (map f (take k ys))" by (simp add: take_map [symmetric] distinct_take)
  from perm have "set ys = set xs" by (rule mset_eq_setD)
  then show "set (take k ys) \<subseteq> set xs" using set_take_subset [of k ys] by simp
qed

lemma candidatesRoute_fetched:
  assumes ex: "candidatesExcludeIds db request = Inr excludeIds"
      and pool: "getCandidateMovies db (CandidatesRequest.filters request) excludeIds = Inr pool"
      and lim: "L = (case limit request of None \<Rightarrow> 30 | Some l \<Rightarrow> l)" "0 \<le> L"
  shows "\<exists>gs. candidatesRoute db shuffle request =
           (db, Reply200 \<lparr> CandidatesResponse.movies =
              map (\<lambda>m. toMovie m (gs m)) (take (nat L) (if pool = [] then [] else shuffle pool)) \<rparr>)"
proof (cases "pool = []")
  case True
  then show ?thesis
    using ex pool by (simp add: candidatesRoute_def)
next
  case False
  define sel where "sel = take (nat L) (shuffle pool)"
  from getMoviesGenres_reachable [OF getCandidateMovies_Inr(1) [OF pool], of "map MovieRow.id sel"]
  obtain gm where gm: "getMoviesGenres db (map MovieRow.id sel) = Inr gm" by blast
  have sl: "slice0 (min L (int (length (shuffle pool)))) (shuffle pool) = sel"
    unfolding sel_def using lim(2) by (rule slice0_limit)
  have "candidatesRoute db shuffle request =
          (db, Reply200 \<lparr> CandidatesResponse.movies =
             map (\<lambda>m. toMovie m (case gm (MovieRow.id m) of None \<Rightarrow> [] | Some gs \<Rightarrow> gs)) sel \<rparr>)"
    using ex False pool gm
    by (simp add: candidatesRoute_def Let_def lim(1) [symmetric] sl)
  then show ?thesis using False unfolding sel_def
    by (intro exI [of _ "\<lambda>m. case gm (MovieRow.id m) of None \<Rightarrow> [] | Some gs \<Rightarrow> gs"]) simp
qed

lemma candidatesRoute_props:
  assumes perm: "\<And>xs. mset (shuffle xs) = mset xs"
      and pk: "distinct (map MovieRow.id (database.movies db))"
      and ex: "candidatesExcludeIds db request = Inr excludeIds"
      and fetch: "getCandidateMovies db (CandidatesRequest.filters request) excludeIds = Inr pool"
      and lim: "L = (case limit request of None \<Rightarrow> 30 | Some l \<Rightarrow> l)" "0 \<le> L"
      and cc: "cc = candidateConditions (CandidatesRequest.filters request) excludeIds"
  shows "\<exists>resp. candidatesRoute db shuffle request = (db, Reply200 resp) \<and>
           length (CandidatesResponse.movies resp) =
             min (nat L) (min 1000 (length (matchingRows db (fst cc) (snd cc)))) \<and>
           distinct (map Movie.id (CandidatesResponse.movies resp)) \<and>
           (\<forall>mv\<in>set (CandidatesResponse.movies resp).
              \<exists>m\<in>set (database.movies db). \<exists>mg names.
                 mv = toMovie m names \<and>
                 (m, mg) \<in> set (fromMovies db (snd cc)) \<and>
                 list_all (\<lambda>c. holds c m mg) (fst cc) \<and>
                 (\<forall>gs. genreIds (CandidatesRequest.filters request) = Some gs \<and> gs \<noteq> [] \<longrightarrow>
                    (\<exists>g\<in>set (movie_genres db).
                       MovieGenre.movie_id g = MovieRow.id m \<and> genre_id g \<in> set gs)))"
proof -
  have pool: "pool = take 1000 (matchingRows db (fst cc) (snd cc))"
    using getCandidateMovies_Inr(2) [OF fetch] by (simp add: cc)
  from candidatesRoute_fetched [OF ex fetch lim, of shuffle] obtain names where
    run: "candidatesRoute db shuffle request =
           (db, Reply200 \<lparr> CandidatesResponse.movies =
              map (\<lambda>m. toMovie m (names m)) (take (nat L) (if pool = [] then [] else shuffle pool)) \<rparr>)"
    by blast
  define ys where "ys = (if pool = [] then [] else shuffle pool)"
  have ys: "mset ys = mset pool" by (simp add: ys_def perm)
  have dpool: "distinct (map MovieRow.id pool)"
    unfolding pool using distinct_ids_matchingRows [OF pk, of cs j for cs j]
    by (simp add: take_map [symmetric] distinct_take)
  note props = shuffle_take_props [OF ys dpool, of "nat L"]
  have len: "length (take (nat L) ys) = min (nat L) (min 1000 (length (matchingRows db (fst cc) (snd cc))))"
    using props(1) by (simp add: pool min.commute)
  have sat: "\<forall>m\<in>set (take (nat L) ys). m \<in> set (database.movies db) \<and>
               (\<exists>mg. (m, mg) \<in> set (fromMovies db (snd cc)) \<and>
                 list_all (\<lambda>c. holds c m mg) (fst cc) \<and>
                 (\<forall>gs. genreIds (CandidatesRequest.filters request) = Some gs \<and> gs \<noteq> [] \<longrightarrow>
                    (\<exists>g\<in>set (movie_genres db).
                       MovieGenre.movie_id g = MovieRow.id m \<and> genre_id g \<in> set gs)))"
  proof
    fix m assume "m \<in> set (take (nat L) ys)"
    with props(3) have "m \<in> set pool" by blast
    then have mem: "m \<in> set (matchingRows db (fst cc) (snd cc))"
      unfolding pool by (rule in_set_takeD)
    from matchingRows_row [OF mem] obtain mg where
      row: "(m, mg) \<in> set (fromMovies db (snd cc))" and
      all: "list_all (\<lambda>c. holds c m mg) (fst cc)" by blast
    have "\<forall>gs. genreIds (CandidatesRequest.filters request) = Some gs \<and> gs \<noteq> [] \<longrightarrow>
                    (\<exists>g\<in>set (movie_genres db).
                       MovieGenre.movie_id g = MovieRow.id m \<and> genre_id g \<in> set gs)"
      using row_has_requested_genre [OF row [unfolded cc] all [unfolded cc]] by blast
    with row all fromMovies_fst [OF row]
    show "m \<in> set (database.movies db) \<and>
               (\<exists>mg. (m, mg) \<in> set (fromMovies db (snd cc)) \<and>
                 list_all (\<lambda>c. holds c m mg) (fst cc) \<and>
                 (\<forall>gs. genreIds (CandidatesRequest.filters request) = Some gs \<and> gs \<noteq> [] \<longrightarrow>
                    (\<exists>g\<in>set (movie_genres db).
                       MovieGenre.movie_id g = MovieRow.id m \<and> genre_id g \<in> set gs)))"
      by blast
  qed
  have each: "\<forall>mv\<in>set (map (\<lambda>m. toMovie m (names m)) (take (nat L) ys)).
              \<exists>m\<in>set (database.movies db). \<exists>mg nms.
                 mv = toMovie m nms \<and>
                 (m, mg) \<in> set (fromMovies db (snd cc)) \<and>
                 list_all (\<lambda>c. holds c m mg) (fst cc) \<and>
                 (\<forall>gs. genreIds (CandidatesRequest.filters request) = Some gs \<and> gs \<noteq> [] \<longrightarrow>
                    (\<exists>g\<in>set (movie_genres db).
                       MovieGenre.movie_id g = MovieRow.id m \<and> genre_id g \<in> set gs))"
  proof
    fix mv assume "mv \<in> set (map (\<lambda>m. toMovie m (names m)) (take (nat L) ys))"
    then obtain m where m: "m \<in> set (take (nat L) ys)" and mv: "mv = toMovie m (names m)" by auto
    from sat m mv show "\<exists>m\<in>set (database.movies db). \<exists>mg nms.
                 mv = toMovie m nms \<and>
                 (m, mg) \<in> set (fromMovies db (snd cc)) \<and>
                 list_all (\<lambda>c. holds c m mg) (fst cc) \<and>
                 (\<forall>gs. genreIds (CandidatesRequest.filters request) = Some gs \<and> gs \<noteq> [] \<longrightarrow>
                    (\<exists>g\<in>set (movie_genres db).
                       MovieGenre.movie_id g = MovieRow.id m \<and> genre_id g \<in> set gs))"
      by blast
  qed
  have dist: "distinct (map Movie.id (map (\<lambda>m. toMovie m (names m)) (take (nat L) ys)))"
    using props(2) by (simp add: comp_def toMovie_id)
  have lenm: "length (map (\<lambda>m. toMovie m (names m)) (take (nat L) ys)) =
                min (nat L) (min 1000 (length (matchingRows db (fst cc) (snd cc))))"
    using len by simp
  show ?thesis
    using run lenm dist each unfolding ys_def [symmetric]
    by (intro exI [of _ "\<lparr> CandidatesResponse.movies = map (\<lambda>m. toMovie m (names m)) (take (nat L) ys) \<rparr>"])
       simp
qed


text \<open>
  C8, as amended. Take a call of \<open>POST /candidates\<close> whose exclusion query and
  candidate query return, a shuffle that permutes its input, distinct primary keys in
  \<open>movies\<close> and a limit \<open>L \<ge> 0\<close> (30 when the request gives none). The call answers
  200 with exactly \<open>min(L, min(1000, n))\<close> movies, where \<open>n\<close> is the number of distinct
  rows the query selects before its LIMIT. The movies have distinct ids. Each is the
  rendering of a row of \<open>movies\<close> which, with its row of the join when there is one,
  satisfies every clause built from the filters and the exclusion list; under a genre
  filter the movie has a row in \<open>movie_genres\<close> with one of the requested genres. The
  database is returned unchanged.
\<close>

theorem candidatesRoute_batch:
  "(\<And>xs. mset (shuffle xs) = mset xs) \<Longrightarrow>
   distinct (map MovieRow.id (database.movies db)) \<Longrightarrow>
   candidatesExcludeIds db request = Inr excludeIds \<Longrightarrow>
   getCandidateMovies db (CandidatesRequest.filters request) excludeIds = Inr pool \<Longrightarrow>
   L = (case limit request of None \<Rightarrow> 30 | Some l \<Rightarrow> l) \<Longrightarrow> 0 \<le> L \<Longrightarrow>
   cc = candidateConditions (CandidatesRequest.filters request) excludeIds \<Longrightarrow>
     \<exists>resp. candidatesRoute db shuffle request = (db, Reply200 resp) \<and>
       length (CandidatesResponse.movies resp) =
         min (nat L) (min 1000 (length (matchingRows db (fst cc) (snd cc)))) \<and>
       distinct (map Movie.id (CandidatesResponse.movies resp)) \<and>
       (\<forall>mv\<in>set (CandidatesResponse.movies resp).
          \<exists>m\<in>set (database.movies db). \<exists>mg names.
             mv = toMovie m names \<and>
             (m, mg) \<in> set (fromMovies db (snd cc)) \<and>
             list_all (\<lambda>c. holds c m mg) (fst cc) \<and>
             (\<forall>gs. genreIds (CandidatesRequest.filters request) = Some gs \<and> gs \<noteq> [] \<longrightarrow>
                (\<exists>g\<in>set (movie_genres db).
                   MovieGenre.movie_id g = MovieRow.id m \<and> genre_id g \<in> set gs)))"
  by (rule candidatesRoute_props)

lemma ex_distinct_ids: "distinct (map MovieRow.id (database.movies exampleDb))"
  by (simp add: exampleDb_def row1_def row2_def row3_def)

lemma ex_cands_comedy: "getCandidateMovies exampleDb comedyFilters [] = Inr [row1, row3]"
  by (simp add: getCandidateMovies_def candidateConditions_def selectCandidates_def matchingRows_def fromMovies_def comedyFilters_def
     exampleDb_def noFilters_def row1_def row2_def row3_def minRuntime_def minVoteCount_def minVoteAverage_def inSmallint_def inInteger_def)

lemma ex_genres3: "getMoviesGenres exampleDb [3] = Inr [3 \<mapsto> [''Comedy'', ''Drama'']]"
  by (simp add: getMoviesGenres_def exampleDb_def)

lemma row3_id: "MovieRow.id row3 = 3"
  by (simp add: row3_def)

lemma ex_browse:
  "candidatesRoute exampleDb rev browseComedy =
     (exampleDb, Reply200 \<lparr> CandidatesResponse.movies = [toMovie row3 [''Comedy'', ''Drama'']] \<rparr>)"
  by (simp add: candidatesRoute_def candidatesExcludeIds_def browseComedy_def newSet_def
        ex_cands_comedy slice0_def row3_id ex_genres3)

lemma ex_browse_excl: "candidatesExcludeIds exampleDb browseComedy = Inr []"
  by (simp add: candidatesExcludeIds_def browseComedy_def newSet_def)

lemma ex_browse_fetch:
  "getCandidateMovies exampleDb (CandidatesRequest.filters browseComedy) [] = Inr [row1, row3]"
  by (simp add: browseComedy_def ex_cands_comedy)

theorem candidatesRoute_batch_witness:
  "candidatesRoute exampleDb rev browseComedy =
     (exampleDb, Reply200 \<lparr> CandidatesResponse.movies = [toMovie row3 [''Comedy'', ''Drama'']] \<rparr>) \<and>
   length [toMovie row3 [''Comedy'', ''Drama'']] =
     min (nat 1) (min 1000 (length (matchingRows exampleDb (fst (candidateConditions comedyFilters []))
                                      (snd (candidateConditions comedyFilters [])))))"
  using candidatesRoute_batch [of rev exampleDb browseComedy "[]" "[row1, row3]" 1
          "candidateConditions comedyFilters []", OF _ ex_distinct_ids ex_browse_excl ex_browse_fetch]
        ex_browse
  by (simp add: browseComedy_def)

text \<open>
  The limit is taken as given: a negative limit makes \<open>slice\<close> count from the end of
  the array. With limit \<open>-1\<close> and a pool of two, one movie is returned.
\<close>

lemma candidatesRoute_negative_limit:
  "candidatesRoute exampleDb (\<lambda>xs. xs) (browseComedy \<lparr> limit := Some (- 1) \<rparr>) =
     (exampleDb, Reply200 \<lparr> CandidatesResponse.movies = [toMovie row1 [''Comedy'']] \<rparr>)"
  by (simp add: candidatesRoute_def candidatesExcludeIds_def browseComedy_def newSet_def
        ex_cands_comedy slice0_def row1_id ex_genres)

text \<open>
  The route does not validate the durations: a \<open>maxDuration\<close> outside the range of
  SMALLINT makes the candidate query reject, and the reply is the 500 of the \<open>catch\<close>.
\<close>

lemma candidatesRoute_duration_out_of_range:
  "candidatesRoute exampleDb shuffle
     \<lparr> CandidatesRequest.filters = noFilters \<lparr> maxDuration := Some 40000 \<rparr>, limit = None,
       CandidatesRequest.sessionId = None, excludeMovieIds = None \<rparr> =
     (exampleDb, Reply500 ''Failed to fetch candidates.'')"
  by (simp add: candidatesRoute_def candidatesExcludeIds_def newSet_def getCandidateMovies_def
        candidateConditions_def noFilters_def exampleDb_fields inSmallint_def inInteger_def
        minRuntime_def)

lemma bigRow_holds:
  "list_all (\<lambda>c. holds c (bigRow i) None) (fst (candidateConditions noFilters []))"
  by (simp add: candidateConditions_def noFilters_def bigRow_def row1_def
        minRuntime_def minVoteCount_def minVoteAverage_def)

lemma bigRow_inj: "inj_on bigRow A"
proof (rule inj_onI)
  fix i j assume "bigRow i = bigRow j"
  then have "MovieRow.id (bigRow i) = MovieRow.id (bigRow j)" by simp
  then show "i = j" by (simp add: bigRow_def)
qed

lemma bigDb_matching:
  "matchingRows bigDb (fst (candidateConditions noFilters [])) (snd (candidateConditions noFilters []))
     = map bigRow [1..<1002]"
proof -
  have j: "snd (candidateConditions noFilters []) = False"
    by (simp add: candidateConditions_def noFilters_def)
  have "filter (\<lambda>(m, mg). list_all (\<lambda>c. holds c m mg) (fst (candidateConditions noFilters [])))
          (map (\<lambda>m. (m, None)) (map bigRow [1..<1002])) = map (\<lambda>m. (m, None)) (map bigRow [1..<1002])"
    by (rule filter_True) (auto simp: bigRow_holds)
  moreover have "distinct (map bigRow [1..<1002])"
    by (simp add: distinct_map bigRow_inj)
  ultimately show ?thesis
    by (simp add: matchingRows_def fromMovies_def j bigDb_def comp_def distinct_remdups_id)
qed

lemma bigDb_facts:
  "distinct (map MovieRow.id (database.movies bigDb))"
  "candidatesExcludeIds bigDb (browseAll l) = Inr []"
  "getCandidateMovies bigDb (CandidatesRequest.filters (browseAll l)) [] =
     Inr (take 1000 (map bigRow [1..<1002]))"
proof -
  have ids: "map MovieRow.id (database.movies bigDb) = map int [1..<1002]"
    by (simp add: bigDb_def bigRow_def)
  show "distinct (map MovieRow.id (database.movies bigDb))"
    unfolding ids by (simp add: distinct_map)
  show "candidatesExcludeIds bigDb (browseAll l) = Inr []"
    by (simp add: candidatesExcludeIds_def browseAll_def newSet_def)
  have up: "reachable bigDb" by (simp add: bigDb_def exampleDb_def)
  have ok: "list_all paramsInRange (fst (candidateConditions noFilters []))"
    by (simp add: candidateConditions_def noFilters_def inSmallint_def minRuntime_def)
  show "getCandidateMovies bigDb (CandidatesRequest.filters (browseAll l)) [] =
     Inr (take 1000 (map bigRow [1..<1002]))"
    using getCandidateMovies_accepts [OF up ok] by (simp add: browseAll_def bigDb_matching)
qed

text \<open>
  C8 as stated fails beyond the cap of the candidate fetch: against 1001 matching rows
  a request with limit 1001 gets 1000 movies, not \<open>min(1001, 1001)\<close>.
\<close>

theorem candidatesRoute_cap_counterexample:
  "length (matchingRows bigDb (fst (candidateConditions noFilters []))
                              (snd (candidateConditions noFilters []))) = 1001 \<and>
   length (case snd (candidatesRoute bigDb (\<lambda>xs. xs) (browseAll 1001)) of
             Reply200 resp \<Rightarrow> CandidatesResponse.movies resp | _ \<Rightarrow> []) = 1000 \<and>
   min (1001::nat) 1001 \<noteq> 1000"
proof -
  have n: "length (matchingRows bigDb (fst (candidateConditions noFilters []))
                              (snd (candidateConditions noFilters []))) = 1001"
    by (simp add: bigDb_matching)
  from candidatesRoute_props [OF _ bigDb_facts(1) bigDb_facts(2) bigDb_facts(3) _ _ refl,
         of "\<lambda>xs. xs" 1001 1001]
  obtain resp where "candidatesRoute bigDb (\<lambda>xs. xs) (browseAll 1001) = (bigDb, Reply200 resp)"
    and "length (CandidatesResponse.movies resp) = 1000"
    by (auto simp: browseAll_def n)
  then show ?thesis using n by simp
qed


lemma toMovie_fields:
  "Movie.runtime (toMovie row gs) = (case MovieRow.runtime row of None \<Rightarrow> 0 | Some r \<Rightarrow> r)"
  "Movie.synopsis (toMovie row gs) = (case MovieRow.synopsis row of None \<Rightarrow> [] | Some s \<Rightarrow> s)"
  "posterUrl (toMovie row gs) =
     (case poster_path row of None \<Rightarrow> [] | Some p \<Rightarrow> if p = [] then [] else tmdbImageBaseUrl @ p)"
  by (simp_all add: toMovie_def split: option.splits)

lemma pickRoute_movie:
  "pickRoute db u request = (db', Reply200 \<lparr> PickResponse.movie = Some mv, message = msg \<rparr>) \<Longrightarrow>
     \<exists>m\<in>set (database.movies db). \<exists>nms. mv = toMovie m nms"
proof -
  assume "pickRoute db u request = (db', Reply200 \<lparr> PickResponse.movie = Some mv, message = msg \<rparr>)"
  then have run: "pickMovie db u (PickRequest.sessionId request) (PickRequest.filters request) = (db', Inr (Some mv))"
    by (auto simp: pickRoute_def Let_def split: if_splits prod.splits sum.splits option.splits)
  from pickMovie_Some [OF run] obtain recent cands gm first sel where
    cands: "getCandidateMovies db (PickRequest.filters request) recent = Inr cands" and
    sel: "weightedRandomSelect u (applyFirstPickBias first
         (map (\<lambda>m. \<lparr> WeightedCandidate.movie = m, weight = calculateWeight m,
                      WeightedCandidate.genres = (case gm (MovieRow.id m) of None \<Rightarrow> [] | Some gs \<Rightarrow> gs) \<rparr>)
              cands)) = Some sel" and
    mv: "mv = toMovie (WeightedCandidate.movie sel) (WeightedCandidate.genres sel)"
    by blast
  from weightedRandomSelect_mem [OF sel] set_applyFirstPickBias
  have "sel \<in> set (map (\<lambda>m. \<lparr> WeightedCandidate.movie = m, weight = calculateWeight m,
                      WeightedCandidate.genres = (case gm (MovieRow.id m) of None \<Rightarrow> [] | Some gs \<Rightarrow> gs) \<rparr>)
              cands)" by blast
  then have "WeightedCandidate.movie sel \<in> set cands" by auto
  from getCandidateMovies_holds [OF cands this] mv show ?thesis by blast
qed

lemma slice0_subset: "set (slice0 k xs) \<subseteq> set xs"
  by (auto simp: slice0_def Let_def dest: in_set_takeD)

lemma candidatesRoute_Reply200:
  assumes "candidatesRoute db shuffle request = (db', Reply200 resp)"
  shows "\<exists>ex pool nm sel. getCandidateMovies db (CandidatesRequest.filters request) ex = Inr pool \<and>
           CandidatesResponse.movies resp = map (\<lambda>m. toMovie m (nm m)) sel \<and>
           set sel \<subseteq> set (shuffle pool)"
proof (cases "candidatesExcludeIds db request")
  case (Inl e)
  with assms show ?thesis by (simp add: candidatesRoute_def)
next
  case (Inr ex)
  note ex = this
  show ?thesis
  proof (cases "getCandidateMovies db (CandidatesRequest.filters request) ex")
    case (Inl e)
    with assms ex show ?thesis by (simp add: candidatesRoute_def)
  next
    case (Inr pool)
    note pool = this
    show ?thesis
    proof (cases "pool = []")
      case True
      with assms ex pool have "resp = \<lparr> CandidatesResponse.movies = [] \<rparr>"
        by (simp add: candidatesRoute_def)
      then have "CandidatesResponse.movies resp = map (\<lambda>m. toMovie m []) []" by simp
      with pool show ?thesis
        by (intro exI [of _ ex] exI [of _ pool] exI [of _ "\<lambda>m. []"] exI [of _ "[]"]) simp
    next
      case False
      define sel where "sel = slice0 (min (case limit request of None \<Rightarrow> 30 | Some l \<Rightarrow> l)
                                 (int (length (shuffle pool)))) (shuffle pool)"
      have sub: "set sel \<subseteq> set (shuffle pool)" unfolding sel_def by (rule slice0_subset)
      show ?thesis
      proof (cases "getMoviesGenres db (map MovieRow.id sel)")
        case (Inl e)
        with assms ex pool False show ?thesis
          by (simp add: candidatesRoute_def Let_def sel_def)
      next
        case (Inr gm)
        with assms ex pool False have
          "resp = \<lparr> CandidatesResponse.movies =
             map (\<lambda>m. toMovie m (case gm (MovieRow.id m) of None \<Rightarrow> [] | Some gs \<Rightarrow> gs)) sel \<rparr>"
          by (simp add: candidatesRoute_def Let_def sel_def)
        then have
          "CandidatesResponse.movies resp =
             map (\<lambda>m. toMovie m (case gm (MovieRow.id m) of None \<Rightarrow> [] | Some gs \<Rightarrow> gs)) sel"
          by simp
        with pool sub show ?thesis
          by (intro exI [of _ ex] exI [of _ pool]
                exI [of _ "\<lambda>m. case gm (MovieRow.id m) of None \<Rightarrow> [] | Some gs \<Rightarrow> gs"]
                exI [of _ sel]) simp
      qed
    qed
  qed
qed

lemma candidatesRoute_movie:
  assumes sh: "\<forall>xs. set (shuffle xs) \<subseteq> set xs"
      and run: "candidatesRoute db shuffle request = (db', Reply200 resp)"
      and mv: "mv \<in> set (CandidatesResponse.movies resp)"
  shows "\<exists>m\<in>set (database.movies db). \<exists>nms. mv = toMovie m nms"
proof -
  from candidatesRoute_Reply200 [OF run] obtain ex pool nm sel where
    pool: "getCandidateMovies db (CandidatesRequest.filters request) ex = Inr pool" and
    ms: "CandidatesResponse.movies resp = map (\<lambda>m. toMovie m (nm m)) sel" and
    sub: "set sel \<subseteq> set (shuffle pool)"
    by blast
  from mv ms obtain m where m: "m \<in> set sel" and eq: "mv = toMovie m (nm m)"
    by auto
  from m sub sh have "m \<in> set pool" by blast
  from getCandidateMovies_holds [OF pool this] eq show ?thesis by blast
qed



lemma searchRoute_movie:
  assumes "searchRoute searchMovieByTitle db ttl = Reply200 \<lparr> SearchResponse.movie = Some mv \<rparr>"
  shows "\<exists>m nms. searchMovieByTitle db (trim ttl) = Inr (Some m) \<and>
        getMovieGenres db (MovieRow.id m) = Inr nms \<and> mv = toMovie m nms"
proof (cases "searchMovieByTitle db (trim ttl)")
  case (Inl e)
  with assms show ?thesis by (simp add: searchRoute_def split: if_splits)
next
  case (Inr found)
  note found = this
  show ?thesis
  proof (cases found)
    case None
    with assms found show ?thesis by (simp add: searchRoute_def split: if_splits)
  next
    case (Some m)
    note m = this
    show ?thesis
    proof (cases "getMovieGenres db (MovieRow.id m)")
      case (Inl e)
      with assms found m show ?thesis by (simp add: searchRoute_def split: if_splits)
    next
      case (Inr nms)
      with assms found m have "mv = toMovie m nms"
        by (simp add: searchRoute_def split: if_splits)
      with found m Inr show ?thesis by blast
    qed
  qed
qed

text \<open>
  C10, as amended. \<open>toMovie\<close> renders a null runtime as \<open>0\<close>, a null synopsis as the
  empty string, a null or empty poster path as the empty \<open>posterUrl\<close>, and any other
  poster path as the image base followed by the path. Every movie in a 200 reply of
  \<open>POST /pick\<close> and of \<open>POST /candidates\<close> is that rendering of a row of \<open>movies\<close>
  (for \<open>/candidates\<close>, with a shuffle that returns elements of its input), and the
  movie in a 200 reply of \<open>GET /movies/search\<close> is that rendering of the row the title
  query returned.
\<close>

theorem resolved_movie_rendering:
  "(Movie.runtime (toMovie row names) = (case MovieRow.runtime row of None \<Rightarrow> 0 | Some r \<Rightarrow> r) \<and>
    Movie.synopsis (toMovie row names) = (case MovieRow.synopsis row of None \<Rightarrow> [] | Some s \<Rightarrow> s) \<and>
    posterUrl (toMovie row names) =
      (case poster_path row of
         None \<Rightarrow> []
       | Some p \<Rightarrow> if p = [] then [] else tmdbImageBaseUrl @ p)) \<and>
   (pickRoute db u request = (db', Reply200 \<lparr> PickResponse.movie = Some mv, message = msg \<rparr>) \<longrightarrow>
      (\<exists>m\<in>set (database.movies db). \<exists>nms. mv = toMovie m nms \<and>
         Movie.runtime mv = (case MovieRow.runtime m of None \<Rightarrow> 0 | Some r \<Rightarrow> r) \<and>
         Movie.synopsis mv = (case MovieRow.synopsis m of None \<Rightarrow> [] | Some s \<Rightarrow> s) \<and>
         posterUrl mv =
           (case poster_path m of
              None \<Rightarrow> []
            | Some p \<Rightarrow> if p = [] then [] else tmdbImageBaseUrl @ p))) \<and>
   ((\<forall>xs. set (shuffle xs) \<subseteq> set xs) \<and>
    candidatesRoute db shuffle crequest = (db'', Reply200 resp) \<longrightarrow>
      (\<forall>cmv\<in>set (CandidatesResponse.movies resp).
         \<exists>m\<in>set (database.movies db). \<exists>nms. cmv = toMovie m nms \<and>
           Movie.runtime cmv = (case MovieRow.runtime m of None \<Rightarrow> 0 | Some r \<Rightarrow> r) \<and>
           Movie.synopsis cmv = (case MovieRow.synopsis m of None \<Rightarrow> [] | Some s \<Rightarrow> s) \<and>
           posterUrl cmv =
             (case poster_path m of
                None \<Rightarrow> []
              | Some p \<Rightarrow> if p = [] then [] else tmdbImageBaseUrl @ p))) \<and>
   (searchRoute searchMovieByTitle db ttl = Reply200 \<lparr> SearchResponse.movie = Some smv \<rparr> \<longrightarrow>
      (\<exists>m nms. searchMovieByTitle db (trim ttl) = Inr (Some m) \<and>
         getMovieGenres db (MovieRow.id m) = Inr nms \<and> smv = toMovie m nms \<and>
         Movie.runtime smv = (case MovieRow.runtime m of None \<Rightarrow> 0 | Some r \<Rightarrow> r) \<and>
         Movie.synopsis smv = (case MovieRow.synopsis m of None \<Rightarrow> [] | Some s \<Rightarrow> s) \<and>
         posterUrl smv =
           (case poster_path m of
              None \<Rightarrow> []
            | Some p \<Rightarrow> if p = [] then [] else tmdbImageBaseUrl @ p)))"
proof -
  have a: "Movie.runtime (toMovie row names) = (case MovieRow.runtime row of None \<Rightarrow> 0 | Some r \<Rightarrow> r) \<and>
    Movie.synopsis (toMovie row names) = (case MovieRow.synopsis row of None \<Rightarrow> [] | Some s \<Rightarrow> s) \<and>
    posterUrl (toMovie row names) =
      (case poster_path row of
         None \<Rightarrow> []
       | Some p \<Rightarrow> if p = [] then [] else tmdbImageBaseUrl @ p)"
    by (simp add: toMovie_fields)
  have b: "pickRoute db u request = (db', Reply200 \<lparr> PickResponse.movie = Some mv, message = msg \<rparr>) \<longrightarrow>
      (\<exists>m\<in>set (database.movies db). \<exists>nms. mv = toMovie m nms \<and>
         Movie.runtime mv = (case MovieRow.runtime m of None \<Rightarrow> 0 | Some r \<Rightarrow> r) \<and>
         Movie.synopsis mv = (case MovieRow.synopsis m of None \<Rightarrow> [] | Some s \<Rightarrow> s) \<and>
         posterUrl mv =
           (case poster_path m of
              None \<Rightarrow> []
            | Some p \<Rightarrow> if p = [] then [] else tmdbImageBaseUrl @ p))"
  proof
    assume "pickRoute db u request = (db', Reply200 \<lparr> PickResponse.movie = Some mv, message = msg \<rparr>)"
    from pickRoute_movie [OF this] obtain m nms where
      m: "m \<in> set (database.movies db)" and mv: "mv = toMovie m nms" by blast
    show "\<exists>m\<in>set (database.movies db). \<exists>nms. mv = toMovie m nms \<and>
         Movie.runtime mv = (case MovieRow.runtime m of None \<Rightarrow> 0 | Some r \<Rightarrow> r) \<and>
         Movie.synopsis mv = (case MovieRow.synopsis m of None \<Rightarrow> [] | Some s \<Rightarrow> s) \<and>
         posterUrl mv =
           (case poster_path m of
              None \<Rightarrow> []
            | Some p \<Rightarrow> if p = [] then [] else tmdbImageBaseUrl @ p)"
      using m by (intro bexI [of _ m] exI [of _ nms]) (simp_all add: mv toMovie_fields)
  qed
  have c: "(\<forall>xs. set (shuffle xs) \<subseteq> set xs) \<and>
    candidatesRoute db shuffle crequest = (db'', Reply200 resp) \<longrightarrow>
      (\<forall>cmv\<in>set (CandidatesResponse.movies resp).
         \<exists>m\<in>set (database.movies db). \<exists>nms. cmv = toMovie m nms \<and>
           Movie.runtime cmv = (case MovieRow.runtime m of None \<Rightarrow> 0 | Some r \<Rightarrow> r) \<and>
           Movie.synopsis cmv = (case MovieRow.synopsis m of None \<Rightarrow> [] | Some s \<Rightarrow> s) \<and>
           posterUrl cmv =
             (case poster_path m of
                None \<Rightarrow> []
              | Some p \<Rightarrow> if p = [] then [] else tmdbImageBaseUrl @ p))"
  proof (intro impI ballI)
    fix cmv
    assume h: "(\<forall>xs. set (shuffle xs) \<subseteq> set xs) \<and>
       candidatesRoute db shuffle crequest = (db'', Reply200 resp)"
      and cmv: "cmv \<in> set (CandidatesResponse.movies resp)"
    from candidatesRoute_movie [OF conjunct1 [OF h] conjunct2 [OF h] cmv] obtain m nms where
      m: "m \<in> set (database.movies db)" and mv: "cmv = toMovie m nms" by blast
    show "\<exists>m\<in>set (database.movies db). \<exists>nms. cmv = toMovie m nms \<and>
           Movie.runtime cmv = (case MovieRow.runtime m of None \<Rightarrow> 0 | Some r \<Rightarrow> r) \<and>
           Movie.synopsis cmv = (case MovieRow.synopsis m of None \<Rightarrow> [] | Some s \<Rightarrow> s) \<and>
           posterUrl cmv =
             (case poster_path m of
                None \<Rightarrow> []
              | Some p \<Rightarrow> if p = [] then [] else tmdbImageBaseUrl @ p)"
      using m by (intro bexI [of _ m] exI [of _ nms]) (simp_all add: mv toMovie_fields)
  qed
  have d: "searchRoute searchMovieByTitle db ttl = Reply200 \<lparr> SearchResponse.movie = Some smv \<rparr> \<longrightarrow>
      (\<exists>m nms. searchMovieByTitle db (trim ttl) = Inr (Some m) \<and>
         getMovieGenres db (MovieRow.id m) = Inr nms \<and> smv = toMovie m nms \<and>
         Movie.runtime smv = (case MovieRow.runtime m of None \<Rightarrow> 0 | Some r \<Rightarrow> r) \<and>
         Movie.synopsis smv = (case MovieRow.synopsis m of None \<Rightarrow> [] | Some s \<Rightarrow> s) \<and>
         posterUrl smv =
           (case poster_path m of
              None \<Rightarrow> []
            | Some p \<Rightarrow> if p = [] then [] else tmdbImageBaseUrl @ p))"
  proof
    assume "searchRoute searchMovieByTitle db ttl = Reply200 \<lparr> SearchResponse.movie = Some smv \<rparr>"
    from searchRoute_movie [OF this] obtain m nms where
      f: "searchMovieByTitle db (trim ttl) = Inr (Some m)" and
      g: "getMovieGenres db (MovieRow.id m) = Inr nms" and mv: "smv = toMovie m nms" by blast
    show "\<exists>m nms. searchMovieByTitle db (trim ttl) = Inr (Some m) \<and>
         getMovieGenres db (MovieRow.id m) = Inr nms \<and> smv = toMovie m nms \<and>
         Movie.runtime smv = (case MovieRow.runtime m of None \<Rightarrow> 0 | Some r \<Rightarrow> r) \<and>
         Movie.synopsis smv = (case MovieRow.synopsis m of None \<Rightarrow> [] | Some s \<Rightarrow> s) \<and>
         posterUrl smv =
           (case poster_path m of
              None \<Rightarrow> []
            | Some p \<Rightarrow> if p = [] then [] else tmdbImageBaseUrl @ p)"
      using f g by (intro exI [of _ m] exI [of _ nms]) (simp add: mv toMovie_fields)
  qed
  show ?thesis by (rule conjI [OF a conjI [OF b conjI [OF c d]]])
qed

lemma noFilters_fields: "minDuration noFilters = None" "maxDuration noFilters = None"
  by (simp_all add: noFilters_def)

lemma ex_pickRoute:
  "pickRoute exampleDb 0 \<lparr> PickRequest.sessionId = session1, PickRequest.filters = noFilters \<rparr> =
     ((exampleDb \<lparr> user_picks := [pick0, \<lparr> UserPick.id = 2, session_id = session1, UserPick.movie_id = 1,
              UserPick.filters = noFilters, UserPick.created_at = 5 \<rparr>], user_picks_id_seq := 2 \<rparr>),
      Reply200 \<lparr> PickResponse.movie = Some (toMovie row1 [''Comedy'']), message = None \<rparr>)"
proof -
  have "length session1 = 36" "session1 \<noteq> []" by (simp_all add: session1_def)
  then show ?thesis by (simp add: pickRoute_def ex_pick noFilters_fields)
qed

lemma ex_trim: "trim '' Alpha '' = ''Alpha''"
  by (simp add: trim_def isSpace_def)

lemma ex_search_row: "exampleSearch exampleDb ''Alpha'' = Inr (Some row1)"
  by (simp add: exampleSearch_def exampleDb_def row1_def)

lemma ex_genres_of_1: "getMovieGenres exampleDb 1 = Inr [''Comedy'']"
  by (simp add: getMovieGenres_def exampleDb_def)

lemma ex_search:
  "searchRoute exampleSearch exampleDb '' Alpha '' =
     Reply200 \<lparr> SearchResponse.movie = Some (toMovie row1 [''Comedy'']) \<rparr>"
  by (simp add: searchRoute_def ex_trim ex_search_row row1_id ex_genres_of_1)

theorem resolved_movie_rendering_witness:
  "Movie.runtime (toMovie row2 []) = 0 \<and> Movie.synopsis (toMovie row2 []) = [] \<and>
   posterUrl (toMovie row2 []) = [] \<and>
   pickRoute exampleDb 0 \<lparr> PickRequest.sessionId = session1, PickRequest.filters = noFilters \<rparr> =
     ((exampleDb \<lparr> user_picks := [pick0, \<lparr> UserPick.id = 2, session_id = session1, UserPick.movie_id = 1,
              UserPick.filters = noFilters, UserPick.created_at = 5 \<rparr>], user_picks_id_seq := 2 \<rparr>),
      Reply200 \<lparr> PickResponse.movie = Some (toMovie row1 [''Comedy'']), message = None \<rparr>) \<and>
   (\<exists>m\<in>set (database.movies exampleDb). \<exists>nms. (toMovie row1 [''Comedy'']) = toMovie m nms \<and>
      Movie.runtime (toMovie row1 [''Comedy'']) = (case MovieRow.runtime m of None \<Rightarrow> 0 | Some r \<Rightarrow> r) \<and>
      Movie.synopsis (toMovie row1 [''Comedy'']) = (case MovieRow.synopsis m of None \<Rightarrow> [] | Some s \<Rightarrow> s) \<and>
      posterUrl (toMovie row1 [''Comedy'']) =
        (case poster_path m of
           None \<Rightarrow> []
         | Some p \<Rightarrow> if p = [] then [] else tmdbImageBaseUrl @ p)) \<and>
   candidatesRoute exampleDb rev browseComedy =
     (exampleDb, Reply200 \<lparr> CandidatesResponse.movies = [toMovie row3 [''Comedy'', ''Drama'']] \<rparr>) \<and>
   (\<exists>m\<in>set (database.movies exampleDb). \<exists>nms. (toMovie row3 [''Comedy'', ''Drama'']) = toMovie m nms \<and>
      Movie.runtime (toMovie row3 [''Comedy'', ''Drama'']) = (case MovieRow.runtime m of None \<Rightarrow> 0 | Some r \<Rightarrow> r) \<and>
      Movie.synopsis (toMovie row3 [''Comedy'', ''Drama'']) = (case MovieRow.synopsis m of None \<Rightarrow> [] | Some s \<Rightarrow> s) \<and>
      posterUrl (toMovie row3 [''Comedy'', ''Drama'']) =
        (case poster_path m of
           None \<Rightarrow> []
         | Some p \<Rightarrow> if p = [] then [] else tmdbImageBaseUrl @ p)) \<and>
   searchRoute exampleSearch exampleDb '' Alpha '' =
     Reply200 \<lparr> SearchResponse.movie = Some (toMovie row1 [''Comedy'']) \<rparr> \<and>
   (\<exists>m nms. exampleSearch exampleDb (trim '' Alpha '') = Inr (Some m) \<and>
      getMovieGenres exampleDb (MovieRow.id m) = Inr nms \<and> (toMovie row1 [''Comedy'']) = toMovie m nms \<and>
      Movie.runtime (toMovie row1 [''Comedy'']) = (case MovieRow.runtime m of None \<Rightarrow> 0 | Some r \<Rightarrow> r) \<and>
      Movie.synopsis (toMovie row1 [''Comedy'']) = (case MovieRow.synopsis m of None \<Rightarrow> [] | Some s \<Rightarrow> s) \<and>
      posterUrl (toMovie row1 [''Comedy'']) =
        (case poster_path m of
           None \<Rightarrow> []
         | Some p \<Rightarrow> if p = [] then [] else tmdbImageBaseUrl @ p))"
proof -
  note th = resolved_movie_rendering [where row = row2 and names = "[]" and db = exampleDb
      and u = 0 and request = "\<lparr> PickRequest.sessionId = session1, PickRequest.filters = noFilters \<rparr>"
      and mv = "toMovie row1 [''Comedy'']" and msg = None and shuffle = rev
      and crequest = browseComedy and db'' = exampleDb
      and resp = "\<lparr> CandidatesResponse.movies = [toMovie row3 [''Comedy'', ''Drama'']] \<rparr>"
      and searchMovieByTitle = exampleSearch and ttl = "'' Alpha ''"
      and smv = "toMovie row1 [''Comedy'']"
      and db' = "(exampleDb \<lparr> user_picks := [pick0, \<lparr> UserPick.id = 2, session_id = session1, UserPick.movie_id = 1,
              UserPick.filters = noFilters, UserPick.created_at = 5 \<rparr>], user_picks_id_seq := 2 \<rparr>)"]
  have r2v: "MovieRow.runtime row2 = None" "MovieRow.synopsis row2 = None" "poster_path row2 = Some []"
    by (simp_all add: row2_def)
  from th [THEN conjunct1] have a: "Movie.runtime (toMovie row2 []) = 0"
    "Movie.synopsis (toMovie row2 []) = []" "posterUrl (toMovie row2 []) = []"
    by (simp_all add: r2v)
  from th [THEN conjunct2, THEN conjunct1] ex_pickRoute
  have b: "(\<exists>m\<in>set (database.movies exampleDb). \<exists>nms. (toMovie row1 [''Comedy'']) = toMovie m nms \<and>
      Movie.runtime (toMovie row1 [''Comedy'']) = (case MovieRow.runtime m of None \<Rightarrow> 0 | Some r \<Rightarrow> r) \<and>
      Movie.synopsis (toMovie row1 [''Comedy'']) = (case MovieRow.synopsis m of None \<Rightarrow> [] | Some s \<Rightarrow> s) \<and>
      posterUrl (toMovie row1 [''Comedy'']) =
        (case poster_path m of
           None \<Rightarrow> []
         | Some p \<Rightarrow> if p = [] then [] else tmdbImageBaseUrl @ p))" by (rule mp)
  have "\<forall>xs. set (rev xs) \<subseteq> set xs" by simp
  with ex_browse th [THEN conjunct2, THEN conjunct2, THEN conjunct1]
  have "\<forall>cmv\<in>set (CandidatesResponse.movies
           \<lparr> CandidatesResponse.movies = [toMovie row3 [''Comedy'', ''Drama'']] \<rparr>).
         \<exists>m\<in>set (database.movies exampleDb). \<exists>nms. cmv = toMovie m nms \<and>
           Movie.runtime cmv = (case MovieRow.runtime m of None \<Rightarrow> 0 | Some r \<Rightarrow> r) \<and>
           Movie.synopsis cmv = (case MovieRow.synopsis m of None \<Rightarrow> [] | Some s \<Rightarrow> s) \<and>
           posterUrl cmv =
             (case poster_path m of
                None \<Rightarrow> []
              | Some p \<Rightarrow> if p = [] then [] else tmdbImageBaseUrl @ p)"
    by blast
  then have c: "(\<exists>m\<in>set (database.movies exampleDb). \<exists>nms. (toMovie row3 [''Comedy'', ''Drama'']) = toMovie m nms \<and>
      Movie.runtime (toMovie row3 [''Comedy'', ''Drama'']) = (case MovieRow.runtime m of None \<Rightarrow> 0 | Some r \<Rightarrow> r) \<and>
      Movie.synopsis (toMovie row3 [''Comedy'', ''Drama'']) = (case MovieRow.synopsis m of None \<Rightarrow> [] | Some s \<Rightarrow> s) \<and>
      posterUrl (toMovie row3 [''Comedy'', ''Drama'']) =
        (case poster_path m of
           None \<Rightarrow> []
         | Some p \<Rightarrow> if p = [] then [] else tmdbImageBaseUrl @ p))" by simp
  from th [THEN conjunct2, THEN conjunct2, THEN conjunct2] ex_search
  have d: "(\<exists>m nms. exampleSearch exampleDb (trim '' Alpha '') = Inr (Some m) \<and>
      getMovieGenres exampleDb (MovieRow.id m) = Inr nms \<and> (toMovie row1 [''Comedy'']) = toMovie m nms \<and>
      Movie.runtime (toMovie row1 [''Comedy'']) = (case MovieRow.runtime m of None \<Rightarrow> 0 | Some r \<Rightarrow> r) \<and>
      Movie.synopsis (toMovie row1 [''Comedy'']) = (case MovieRow.synopsis m of None \<Rightarrow> [] | Some s \<Rightarrow> s) \<and>
      posterUrl (toMovie row1 [''Comedy'']) =
        (case poster_path m of
           None \<Rightarrow> []
         | Some p \<Rightarrow> if p = [] then [] else tmdbImageBaseUrl @ p))" by (rule mp)
  show ?thesis by (intro conjI; (fact a b c d | rule ex_pickRoute ex_browse ex_search))
qed


text \<open>
  C10 as stated fails for a poster path that is present but empty: the conditional on
  \<open>row.poster_path\<close> is false for the empty string, so \<open>posterUrl\<close> is empty and not
  the image base followed by the path.
\<close>

theorem toMovie_empty_poster_counterexample:
  "poster_path row2 = Some [] \<and> posterUrl (toMovie row2 []) = [] \<and>
   posterUrl (toMovie row2 []) \<noteq> tmdbImageBaseUrl @ []"
  by (simp add: toMovie_def row2_def tmdbImageBaseUrl_def)

end
